theory Spec2Isabelle
  imports Complex_Main "HOL-Library.Sublist" "HOL-Library.Log_Nat"
begin

section \<open>The real-browser monitor of Uptime Kuma\<close>

text \<open>
  A shallow embedding of the module that defines \<^verbatim>\<open>RealBrowserMonitorType\<close> (the
  monitor type named \<^verbatim>\<open>"real-browser"\<close>).
  The module drives a browser through playwright. Every operation of playwright, of the
  settings store and of the remote-browser table is an external call: the model records
  the call in a trace and takes its outcome (a value or a thrown error) from an
  environment that answers as a function of the calls made so far. The three module-level
  caches, the listeners registered on remote connections and the heartbeat object are the
  state. An \<^verbatim>\<open>async\<close> function is a state transformer that returns either the thrown
  error or the value; \<^verbatim>\<open>await\<close> is sequencing. Log output is left out: it has no
  effect on control flow or on the state.

  Each function is one run from its call to its return or throw: the calls of two
  checks that run at the same time are not interleaved, and the \<^verbatim>\<open>"disconnected"\<close> event
  of a connection is a transition of its own (\<open>emit_disconnected\<close>) that happens between
  runs.
\<close>

subsection \<open>Errors and strings\<close>

text \<open>
  A thrown value is an \<^verbatim>\<open>Error\<close> object, of which the program reads the fields
  \<^verbatim>\<open>name\<close> and \<^verbatim>\<open>message\<close>. The program reads them as \<^verbatim>\<open>error?.message || ""\<close>, so a
  missing message is the empty string here.
\<close>

datatype error = Error (error_name: string) (error_message: string)

text \<open>\<^verbatim>\<open>new Error(msg)\<close>: the name of a plain error is \<^verbatim>\<open>"Error"\<close>.\<close>

definition new_Error :: "string \<Rightarrow> error" where
  "new_Error msg = Error ''Error'' msg"

text \<open>\<^verbatim>\<open>String.prototype.includes\<close>: the argument occurs as a contiguous run of characters.\<close>

fun String_includes :: "string \<Rightarrow> string \<Rightarrow> bool" where
  "String_includes [] m = (m = [])"
| "String_includes (c # s) m = (prefix m (c # s) \<or> String_includes s m)"

subsection \<open>Data\<close>

type_synonym handle = nat

type_synonym context_id = nat

type_synonym page_id = nat

datatype waitUntil = networkidle | domcontentloaded

record contextOptions =
  ignoreHTTPSErrors :: bool
  userAgent :: "string option"
  context_locale :: "string option"
  viewport :: "(nat \<times> nat) option"

record launchOptions =
  executablePath :: "string option"
  headless :: "bool option"
  args :: "string list"

text \<open>A playwright \<^verbatim>\<open>Response\<close>: its status code and the \<^verbatim>\<open>responseEnd\<close> mark of its
  request's timing.\<close>

record response =
  status :: int
  responseEnd :: rat

text \<open>A row of the remote-browser table, as \<^verbatim>\<open>RemoteBrowser.get\<close> returns it.\<close>

record remoteBrowser =
  remoteBrowser_id :: nat
  remoteBrowser_name :: string
  remoteBrowser_url :: string

text \<open>An entry of \<^verbatim>\<open>remoteBrowserConnections\<close>: \<^verbatim>\<open>{ url, browser }\<close>.\<close>

record connection =
  connection_url :: string
  connection_browser :: handle

text \<open>
  The external calls, as they appear in the trace. A call of playwright's
  \<^verbatim>\<open>page.waitForFunction(pageFunction, arg, options)\<close> is recorded with its two optional
  positional arguments: \<^verbatim>\<open>arg\<close>, the value handed to the page function, and \<^verbatim>\<open>options\<close>,
  which holds the timeout of the wait. Each is absent (\<open>None\<close>) when the program passes
  nothing in that position; the only value that the program passes is an object
  \<^verbatim>\<open>{ timeout: n }\<close>, recorded as its number.
\<close>

datatype call =
    RemoteBrowser_get nat nat
  | Settings_get string
  | prepareChromeExecutable_call "string option"
  | chromium_launch launchOptions
  | chromium_connect string
  | browser_close handle
  | browser_newContext handle contextOptions
  | context_addInitScript context_id
  | context_newPage context_id
  | context_close context_id
  | page_setExtraHTTPHeaders page_id "(string \<times> string) list"
  | page_goto page_id string waitUntil int
  | page_evaluate page_id
  | page_waitForFunction page_id "int option" "int option"
  | page_waitForTimeout page_id int
  | page_screenshot page_id string

text \<open>
  The environment. Each field answers the calls of one result type; its argument is the
  trace up to and including the call being answered. \<open>isConnected\<close> is the synchronous
  query \<^verbatim>\<open>browser.isConnected()\<close>, asked after the given trace. The last four fields
  are the pure library functions \<^verbatim>\<open>new URL(s).protocol\<close>, \<^verbatim>\<open>jwt.sign\<close>, \<^verbatim>\<open>path.join\<close>
  and the constant \<^verbatim>\<open>Database.screenshotDir\<close>.
\<close>

record env =
  void_result :: "call list \<Rightarrow> error + unit"
  browser_result :: "call list \<Rightarrow> error + handle"
  context_result :: "call list \<Rightarrow> error + context_id"
  page_result :: "call list \<Rightarrow> error + page_id"
  response_result :: "call list \<Rightarrow> error + response option"
  document_result :: "call list \<Rightarrow> error + string \<times> string"
  remoteBrowser_result :: "call list \<Rightarrow> error + remoteBrowser option"
  path_result :: "call list \<Rightarrow> error + string option"
  isConnected :: "call list \<Rightarrow> handle \<Rightarrow> bool"
  URL_protocol :: "string \<Rightarrow> error + string"
  jwt_sign :: "nat \<Rightarrow> string \<Rightarrow> string"
  path_join :: "string \<Rightarrow> string \<Rightarrow> string"
  screenshotDir :: string

datatype heartbeat_status = DOWN | UP | PENDING | MAINTENANCE

datatype heartbeat_msg = msg_string string | msg_number int

record heartbeat =
  heartbeat_status :: heartbeat_status
  heartbeat_msg :: heartbeat_msg
  heartbeat_ping :: "rat option"

text \<open>
  The state: the module variables \<^verbatim>\<open>localBrowser\<close>, \<^verbatim>\<open>localCloudflareBrowser\<close> and
  \<^verbatim>\<open>remoteBrowserConnections\<close>, the \<^verbatim>\<open>"disconnected"\<close> listeners registered so far (the
  connection each listens on and the cache key its closure holds), the heartbeat object
  the caller passed, and the trace of external calls.
\<close>

record world =
  localBrowser :: "handle option"
  localCloudflareBrowser :: "handle option"
  remoteBrowserConnections :: "nat \<rightharpoonup> connection"
  listeners :: "(handle \<times> nat) list"
  heartbeat_obj :: heartbeat
  trace :: "call list"

subsection \<open>Control flow of async functions\<close>

type_synonym 'a prog = "world \<Rightarrow> (error + 'a) \<times> world"

definition ret :: "'a \<Rightarrow> 'a prog" where
  "ret x = (\<lambda>w. (Inr x, w))"

definition throw :: "error \<Rightarrow> 'a prog" where
  "throw e = (\<lambda>w. (Inl e, w))"

text \<open>\<^verbatim>\<open>const x = await m; k(x)\<close>: an error of \<open>m\<close> skips \<open>k\<close>.\<close>

definition andThen :: "'a prog \<Rightarrow> ('a \<Rightarrow> 'b prog) \<Rightarrow> 'b prog" where
  "andThen m k = (\<lambda>w. case m w of (Inl e, w') \<Rightarrow> (Inl e, w') | (Inr x, w') \<Rightarrow> k x w')"

text \<open>\<^verbatim>\<open>try { m } catch (error) { h(error) }\<close>.\<close>

definition try_catch :: "'a prog \<Rightarrow> (error \<Rightarrow> 'a prog) \<Rightarrow> 'a prog" where
  "try_catch m h = (\<lambda>w. case m w of (Inl e, w') \<Rightarrow> h e w' | (Inr x, w') \<Rightarrow> (Inr x, w'))"

text \<open>\<^verbatim>\<open>try { m } finally { f }\<close>: \<open>f\<close> runs on both outcomes of \<open>m\<close>; an error thrown
  by \<open>f\<close> replaces the outcome of \<open>m\<close>, as in JavaScript.\<close>

definition try_finally :: "'a prog \<Rightarrow> unit prog \<Rightarrow> 'a prog" where
  "try_finally m f = (\<lambda>w. case m w of (r, w') \<Rightarrow>
      (case f w' of (Inl e, w'') \<Rightarrow> (Inl e, w'') | (Inr _, w'') \<Rightarrow> (r, w'')))"

text \<open>An external call: it is appended to the trace and the environment answers.\<close>

definition perform :: "call \<Rightarrow> (call list \<Rightarrow> error + 'a) \<Rightarrow> 'a prog" where
  "perform c answer = (\<lambda>w. (answer (trace w @ [c]), w\<lparr>trace := trace w @ [c]\<rparr>))"

text \<open>An assignment to a module variable or to a field of an object.\<close>

definition assign :: "(world \<Rightarrow> world) \<Rightarrow> unit prog" where
  "assign f = (\<lambda>w. (Inr (), f w))"

subsection \<open>resetChrome\<close>

definition resetChrome :: "env \<Rightarrow> unit prog" where
  "resetChrome env =
     andThen (\<lambda>w. case localBrowser w of
                None \<Rightarrow> ret () w
              | Some b \<Rightarrow> andThen (perform (browser_close b) (void_result env))
                           (\<lambda>_. assign (\<lambda>w. w\<lparr>localBrowser := None\<rparr>)) w)
       (\<lambda>_ w. case localCloudflareBrowser w of
                None \<Rightarrow> ret () w
              | Some b \<Rightarrow> andThen (perform (browser_close b) (void_result env))
                           (\<lambda>_. assign (\<lambda>w. w\<lparr>localCloudflareBrowser := None\<rparr>)) w)"

subsection \<open>Numbers\<close>

text \<open>
  A JavaScript number is an IEEE-754 binary64 value. The numbers of this module are
  integers of moderate size and their products with the literals \<^verbatim>\<open>0.8\<close>, \<^verbatim>\<open>0.7\<close> and
  \<^verbatim>\<open>0.6\<close>, so a number is modelled by the rational it denotes, and an operation by the
  exact result rounded to the nearest value with 53 significant bits, ties to even
  (overflow and subnormal numbers are out of reach of these magnitudes and left out).
\<close>

definition pow2 :: "int \<Rightarrow> rat" where
  "pow2 k = (if 0 \<le> k then 2 ^ nat k else 1 / 2 ^ nat (- k))"

text \<open>For \<open>0 < x\<close>, the exponent \<open>e\<close> with \<open>2\<^sup>e \<le> x < 2\<^sup>e\<^sup>+\<^sup>1\<close>.\<close>

definition binade :: "rat \<Rightarrow> int" where
  "binade x = (if 1 \<le> x then bitlen \<lfloor>x\<rfloor> - 1 else - bitlen (\<lceil>1 / x\<rceil> - 1))"

definition round_half_even :: "rat \<Rightarrow> int" where
  "round_half_even q = (let f = \<lfloor>q\<rfloor>; r = q - of_int f in
     if r < 1 / 2 then f else if 1 / 2 < r then f + 1 else if even f then f else f + 1)"

definition binary64 :: "rat \<Rightarrow> rat" where
  "binary64 x = (if x = 0 then 0 else
     let u = pow2 (binade \<bar>x\<bar> - 52)
     in sgn x * of_int (round_half_even (\<bar>x\<bar> / u)) * u)"

text \<open>The product \<^verbatim>\<open>a * b\<close> of two numbers, and \<^verbatim>\<open>Math.floor\<close>.\<close>

definition js_times :: "rat \<Rightarrow> rat \<Rightarrow> rat" where
  "js_times a b = binary64 (a * b)"

definition Math_floor :: "rat \<Rightarrow> int" where
  "Math_floor x = \<lfloor>x\<rfloor>"

text \<open>\<^verbatim>\<open>n + ""\<close> and \<^verbatim>\<open>`${n}`\<close> for an integer \<open>n\<close>: its decimal digits.\<close>

fun digits_of :: "nat \<Rightarrow> string" where
  "digits_of n = (if n < 10 then [''0123456789'' ! n]
                  else digits_of (n div 10) @ [''0123456789'' ! (n mod 10)])"

declare digits_of.simps [simp del]

definition Number_toString :: "int \<Rightarrow> string" where
  "Number_toString i = (if i < 0 then CHR ''-'' # digits_of (nat (- i)) else digits_of (nat i))"

subsection \<open>Classification of errors\<close>

definition isBrowserClosedError :: "error \<Rightarrow> bool" where
  "isBrowserClosedError error =
     (let message = error_message error in
        String_includes message ''Target page, context or browser has been closed'' \<or>
        String_includes message ''Target closed'' \<or>
        String_includes message ''Browser has been closed'' \<or>
        String_includes message ''Connection closed'')"

definition isNavigationTimeoutError :: "error \<Rightarrow> bool" where
  "isNavigationTimeoutError error =
     (let message = error_message error in
        error_name error = ''TimeoutError'' \<or> String_includes message ''Timeout'' \<or>
        String_includes message ''timed out'')"

subsection \<open>The challenge detector and waiter\<close>

text \<open>\<^verbatim>\<open>toLowerCase\<close> on the ASCII letters (other characters are kept).\<close>

definition toLowerCase :: "string \<Rightarrow> string" where
  "toLowerCase s = map (\<lambda>c. let n = (of_char c :: nat) in
                           if 65 \<le> n \<and> n \<le> 90 then char_of (n + 32) else c) s"

definition markers :: "string list" where
  "markers = [''checking your browser before accessing'',
              ''performing security verification'',
              ''just a moment'',
              ''verify you are human'',
              ''attention required!'']"

text \<open>
  The function evaluated in the page reads \<^verbatim>\<open>document.title\<close> and
  \<^verbatim>\<open>document.body.innerText\<close> (each \<^verbatim>\<open>""\<close> when missing): the environment answers the
  call \<open>page_evaluate\<close> with these two strings, and the content is the two in lower case
  with a line feed between them.
\<close>

definition isCloudflareChallengePage :: "env \<Rightarrow> page_id \<Rightarrow> bool prog" where
  "isCloudflareChallengePage env page =
     andThen (perform (page_evaluate page) (document_result env)) (\<lambda>(title, body).
       let content = toLowerCase title @ [CHR 0x0A] @ toLowerCase body
       in ret (list_ex (\<lambda>marker. String_includes content marker) markers))"

text \<open>
  \<^verbatim>\<open>page.waitForFunction\<close> is playwright's: it returns when the page function (no marker
  in the page) gives a true value and throws when the timeout of the wait elapses first;
  the environment decides which of the two happens. The program calls it with two
  arguments, the page function and the object \<^verbatim>\<open>{ timeout: waitTimeout }\<close>: the object
  stands in the position of \<^verbatim>\<open>arg\<close> and no \<^verbatim>\<open>options\<close> are passed.
\<close>

definition waitForCloudflareChallengeIfNeeded :: "env \<Rightarrow> page_id \<Rightarrow> int \<Rightarrow> unit prog" where
  "waitForCloudflareChallengeIfNeeded env page timeout =
     andThen (isCloudflareChallengePage env page) (\<lambda>hasChallenge.
       if \<not> hasChallenge then ret ()
       else
         let waitTimeout =
               max 3000 (min 20000 (Math_floor (js_times (of_int timeout) (binary64 (7 / 10)))))
         in try_catch (perform (page_waitForFunction page (Some waitTimeout) None)
                         (void_result env))
              (\<lambda>_. throw (new_Error ''Cloudflare challenge was not solved within the timeout.'')))"

subsection \<open>The remote browser pool\<close>

text \<open>The listener that \<open>getRemoteBrowser\<close> registers on a new connection; \<open>cacheKey\<close>
  and \<open>remoteConnection\<close> are the variables its closure holds.\<close>

definition on_disconnected :: "nat \<Rightarrow> handle \<Rightarrow> world \<Rightarrow> world" where
  "on_disconnected cacheKey remoteConnection w =
     (case remoteBrowserConnections w cacheKey of
        None \<Rightarrow> w
      | Some current \<Rightarrow>
          if connection_browser current = remoteConnection
          then w\<lparr>remoteBrowserConnections := (remoteBrowserConnections w)(cacheKey := None)\<rparr>
          else w)"

text \<open>The event \<^verbatim>\<open>"disconnected"\<close> of a connection runs the listeners registered on it.\<close>

definition emit_disconnected :: "handle \<Rightarrow> world \<Rightarrow> world" where
  "emit_disconnected b w =
     fold (\<lambda>(remoteConnection, cacheKey) w'.
             if remoteConnection = b then on_disconnected cacheKey remoteConnection w' else w')
          (listeners w) w"

text \<open>The part of \<open>getRemoteBrowser\<close> after the test of the cached connection: the
  stale entry, when there is one, is closed and deleted; then the connection is made,
  the listener registered and the entry stored.\<close>

definition getRemoteBrowser_connect ::
    "env \<Rightarrow> remoteBrowser \<Rightarrow> connection option \<Rightarrow> handle prog" where
  "getRemoteBrowser_connect env remoteBrowser cachedConnection =
     (let cacheKey = remoteBrowser_id remoteBrowser in
      andThen (case cachedConnection of
                 None \<Rightarrow> ret ()
               | Some c \<Rightarrow>
                   andThen (try_catch (perform (browser_close (connection_browser c))
                                         (void_result env)) (\<lambda>_. ret ()))
                     (\<lambda>_. assign (\<lambda>w. w\<lparr>remoteBrowserConnections :=
                             (remoteBrowserConnections w)(cacheKey := None)\<rparr>)))
        (\<lambda>_.
      andThen (perform (chromium_connect (remoteBrowser_url remoteBrowser))
                 (browser_result env))
        (\<lambda>remoteConnection.
      andThen (assign (\<lambda>w. w\<lparr>listeners :=
                 listeners w @ [(remoteConnection, cacheKey)]\<rparr>))
        (\<lambda>_.
      andThen (assign (\<lambda>w. w\<lparr>remoteBrowserConnections :=
                 (remoteBrowserConnections w)(cacheKey \<mapsto>
                    \<lparr>connection_url = remoteBrowser_url remoteBrowser,
                     connection_browser = remoteConnection\<rparr>)\<rparr>))
        (\<lambda>_. ret remoteConnection)))))"

definition getRemoteBrowser :: "env \<Rightarrow> nat \<Rightarrow> nat \<Rightarrow> handle prog" where
  "getRemoteBrowser env remoteBrowserID userId =
     andThen (perform (RemoteBrowser_get remoteBrowserID userId) (remoteBrowser_result env))
       (\<lambda>found. case found of
          None \<Rightarrow> throw (new_Error (''Remote browser #'' @ Number_toString (int remoteBrowserID)
                                      @ '' not found''))
        | Some remoteBrowser \<Rightarrow> (\<lambda>w.
            let cacheKey = remoteBrowser_id remoteBrowser;
                cachedConnection = remoteBrowserConnections w cacheKey
            in case cachedConnection of
                 None \<Rightarrow> getRemoteBrowser_connect env remoteBrowser cachedConnection w
               | Some c \<Rightarrow>
                   if isConnected env (trace w) (connection_browser c) \<and>
                      connection_url c = remoteBrowser_url remoteBrowser
                   then ret (connection_browser c) w
                   else getRemoteBrowser_connect env remoteBrowser cachedConnection w))"

definition clearRemoteBrowserConnection :: "env \<Rightarrow> nat \<Rightarrow> unit prog" where
  "clearRemoteBrowserConnection env remoteBrowserID = (\<lambda>w.
     case remoteBrowserConnections w remoteBrowserID of
       None \<Rightarrow> ret () w
     | Some cachedConnection \<Rightarrow>
         andThen (try_catch (perform (browser_close (connection_browser cachedConnection))
                               (void_result env)) (\<lambda>_. ret ()))
           (\<lambda>_. assign (\<lambda>w. w\<lparr>remoteBrowserConnections :=
                   (remoteBrowserConnections w)(remoteBrowserID := None)\<rparr>)) w)"

subsection \<open>The local browser pool\<close>

text \<open>
  \<^verbatim>\<open>prepareChromeExecutable\<close> (the executable resolver, with \<^verbatim>\<open>findChrome\<close> and
  \<^verbatim>\<open>installChromiumViaApt\<close>) is one external call here: it returns the path to launch
  (none for the bundled browser) or throws.
\<close>

text \<open>The \<^verbatim>\<open>else\<close> branch of \<open>getBrowser\<close>.\<close>

definition getBrowser_launch :: "env \<Rightarrow> handle prog" where
  "getBrowser_launch env =
     andThen (perform (Settings_get ''chromeExecutable'') (path_result env))
       (\<lambda>executablePath.
     andThen (perform (prepareChromeExecutable_call executablePath) (path_result env))
       (\<lambda>executablePath.
     andThen (perform (chromium_launch
                \<lparr>executablePath = executablePath, headless = None, args = []\<rparr>)
                (browser_result env))
       (\<lambda>b.
     andThen (assign (\<lambda>w. w\<lparr>localBrowser := Some b\<rparr>))
       (\<lambda>_. ret b))))"

definition getBrowser :: "env \<Rightarrow> handle prog" where
  "getBrowser env = (\<lambda>w.
     case localBrowser w of
       None \<Rightarrow> getBrowser_launch env w
     | Some b \<Rightarrow> if isConnected env (trace w) b then ret b w else getBrowser_launch env w)"

definition looksLikeDisplayIssue :: "error \<Rightarrow> bool" where
  "looksLikeDisplayIssue error =
     (let message = error_message error in
        String_includes message ''Missing X server'' \<or>
        String_includes message ''ozone_platform_x11'' \<or>
        String_includes message ''headed mode'' \<or>
        String_includes message ''DISPLAY'')"

text \<open>The part of \<open>getCloudflareBrowser\<close> after the test of the cached handle. The
  function ends with \<^verbatim>\<open>return localCloudflareBrowser\<close>, the variable that one of the two
  launches has just assigned: the model returns the assigned handle.\<close>

definition getCloudflareBrowser_launch :: "env \<Rightarrow> handle prog" where
  "getCloudflareBrowser_launch env =
     andThen (perform (Settings_get ''chromeExecutable'') (path_result env))
       (\<lambda>executablePath.
     andThen (perform (prepareChromeExecutable_call executablePath) (path_result env))
       (\<lambda>executablePath.
     let launchOptions =
           \<lparr>executablePath = executablePath, headless = Some False,
            args = [''--disable-blink-features=AutomationControlled'',
                    ''--disable-dev-shm-usage'']\<rparr>
     in
     try_catch
       (andThen (perform (chromium_launch launchOptions) (browser_result env))
          (\<lambda>b. andThen (assign (\<lambda>w. w\<lparr>localCloudflareBrowser := Some b\<rparr>))
          (\<lambda>_. ret b)))
       (\<lambda>error.
          if \<not> looksLikeDisplayIssue error then throw error
          else
            andThen (perform (chromium_launch
                       \<lparr>executablePath = executablePath, headless = None,
                        args = args launchOptions\<rparr>) (browser_result env))
              (\<lambda>b. andThen (assign (\<lambda>w. w\<lparr>localCloudflareBrowser := Some b\<rparr>))
              (\<lambda>_. ret b)))))"

definition getCloudflareBrowser :: "env \<Rightarrow> handle prog" where
  "getCloudflareBrowser env = (\<lambda>w.
     case localCloudflareBrowser w of
       None \<Rightarrow> getCloudflareBrowser_launch env w
     | Some b \<Rightarrow>
         if isConnected env (trace w) b then ret b w else getCloudflareBrowser_launch env w)"

subsection \<open>The check\<close>

record monitor =
  monitor_id :: nat
  monitor_name :: string
  url :: string
  subtype :: string
  interval :: int
  remote_browser :: "nat option"
  user_id :: nat
  screenshot_delay :: int
  ignoreTls :: bool

record server =
  jwtSecret :: string

definition CLOUDFLARE_USER_AGENT :: string where
  "CLOUDFLARE_USER_AGENT = ''Mozilla/5.0 (Windows NT 10.0; Win64; x64) AppleWebKit/537.36 (KHTML, like Gecko) Chrome/136.0.0.0 Safari/537.36''"

definition CLOUDFLARE_ACCEPT_LANGUAGE :: string where
  "CLOUDFLARE_ACCEPT_LANGUAGE = ''en-US,en;q=0.9''"

text \<open>\<^verbatim>\<open>Math.max(1000, Math.floor(monitor.interval * 1000 * 0.8))\<close>.\<close>

definition check_timeout :: "monitor \<Rightarrow> int" where
  "check_timeout monitor =
     max 1000 (Math_floor (js_times (js_times (of_int (interval monitor)) 1000)
                                    (binary64 (8 / 10))))"

text \<open>The page loads of the two modes (the \<^verbatim>\<open>if (isCloudflareMode) ... else ...\<close> of
  \<open>runCheck\<close>); the value is the variable \<^verbatim>\<open>res\<close> after it.\<close>

definition navigate :: "env \<Rightarrow> monitor \<Rightarrow> page_id \<Rightarrow> int \<Rightarrow> response option prog" where
  "navigate env monitor page timeout =
     (if subtype monitor = ''cf'' then
        andThen (perform (page_goto page (url monitor) domcontentloaded timeout)
                   (response_result env))
          (\<lambda>res.
        andThen (waitForCloudflareChallengeIfNeeded env page timeout)
          (\<lambda>_.
        let verifyTimeout =
              max 3000 (Math_floor (js_times (of_int timeout) (binary64 (6 / 10))))
        in
        andThen (perform (page_goto page (url monitor) domcontentloaded verifyTimeout)
                   (response_result env))
          (\<lambda>verifyResponse.
        ret (case verifyResponse of Some v \<Rightarrow> Some v | None \<Rightarrow> res))))
      else
        try_catch (perform (page_goto page (url monitor) networkidle timeout)
                     (response_result env))
          (\<lambda>error.
             if \<not> isNavigationTimeoutError error then throw error
             else
               let fallbackTimeout =
                     max 1000 (Math_floor (js_times (of_int timeout) (binary64 (6 / 10))))
               in perform (page_goto page (url monitor) domcontentloaded fallbackTimeout)
                    (response_result env)))"

text \<open>From \<^verbatim>\<open>if (!res)\<close> to the end of the \<^verbatim>\<open>try\<close> block of \<open>runCheck\<close>.\<close>

definition screenshot_and_classify ::
    "env \<Rightarrow> monitor \<Rightarrow> server \<Rightarrow> page_id \<Rightarrow> response option \<Rightarrow> unit prog" where
  "screenshot_and_classify env monitor server page res =
     (case res of
        None \<Rightarrow> throw (new_Error ''Failed to navigate to page: no response returned by browser.'')
      | Some r \<Rightarrow>
          andThen (if 0 < screenshot_delay monitor
                   then perform (page_waitForTimeout page (screenshot_delay monitor))
                          (void_result env)
                   else ret ())
            (\<lambda>_.
          let filename = jwt_sign env (monitor_id monitor) (jwtSecret server) @ ''.png'' in
          andThen (perform (page_screenshot page (path_join env (screenshotDir env) filename))
                     (void_result env))
            (\<lambda>_.
          if 200 \<le> status r \<and> status r < 400
          then assign (\<lambda>w. w\<lparr>heartbeat_obj := (heartbeat_obj w)
                         \<lparr>heartbeat_status := UP,
                          heartbeat_msg := msg_number (status r),
                          heartbeat_ping := Some (responseEnd r)\<rparr>\<rparr>)
          else throw (new_Error (Number_toString (status r))))))"

text \<open>The start of the \<^verbatim>\<open>try\<close> block of \<open>runCheck\<close>: the init script, the page and
  its headers.\<close>

definition open_page :: "env \<Rightarrow> monitor \<Rightarrow> context_id \<Rightarrow> page_id prog" where
  "open_page env monitor ctx =
     (let isCloudflareMode = (subtype monitor = ''cf'') in
      andThen (if isCloudflareMode
               then perform (context_addInitScript ctx) (void_result env)
               else ret ())
        (\<lambda>_.
      andThen (perform (context_newPage ctx) (page_result env))
        (\<lambda>page.
      andThen (if isCloudflareMode
               then perform (page_setExtraHTTPHeaders page
                               [(''Accept-Language'', CLOUDFLARE_ACCEPT_LANGUAGE)])
                      (void_result env)
               else ret ())
        (\<lambda>_. ret page))))"

text \<open>The \<^verbatim>\<open>try\<close> block of \<open>runCheck\<close>.\<close>

definition runCheck_try :: "env \<Rightarrow> monitor \<Rightarrow> server \<Rightarrow> context_id \<Rightarrow> unit prog" where
  "runCheck_try env monitor server ctx =
     andThen (open_page env monitor ctx)
       (\<lambda>page.
     andThen (\<lambda>w. (URL_protocol env (url monitor), w))
       (\<lambda>protocol.
     if protocol \<noteq> ''http:'' \<and> protocol \<noteq> ''https:''
     then throw (new_Error ''Invalid url protocol, only http and https are allowed.'')
     else
       let timeout = check_timeout monitor in
       andThen (navigate env monitor page timeout)
         (\<lambda>res. screenshot_and_classify env monitor server page res)))"

text \<open>The object \<^verbatim>\<open>contextOptions\<close> that \<open>runCheck\<close> builds.\<close>

definition contextOptions_of :: "monitor \<Rightarrow> contextOptions" where
  "contextOptions_of monitor =
     (if subtype monitor = ''cf''
      then \<lparr>ignoreHTTPSErrors = ignoreTls monitor,
            userAgent = Some CLOUDFLARE_USER_AGENT,
            context_locale = Some ''en-US'',
            viewport = Some (1366, 768)\<rparr>
      else \<lparr>ignoreHTTPSErrors = ignoreTls monitor, userAgent = None,
            context_locale = None, viewport = None\<rparr>)"

definition runCheck :: "env \<Rightarrow> monitor \<Rightarrow> server \<Rightarrow> handle \<Rightarrow> unit prog" where
  "runCheck env monitor server browser =
     andThen (perform (browser_newContext browser (contextOptions_of monitor))
                (context_result env))
       (\<lambda>ctx.
          try_finally (runCheck_try env monitor server ctx)
            (try_catch (perform (context_close ctx) (void_result env))
               (\<lambda>_. ret ())))"

text \<open>\<^verbatim>\<open>RealBrowserMonitorType.check\<close>. The test \<^verbatim>\<open>!monitor.remote_browser\<close> holds for
  \<^verbatim>\<open>null\<close> and for the number \<^verbatim>\<open>0\<close>.\<close>

definition check :: "env \<Rightarrow> monitor \<Rightarrow> server \<Rightarrow> unit prog" where
  "check env monitor server =
     (let isCloudflareMode = (subtype monitor = ''cf'') in
      case remote_browser monitor of
        None \<Rightarrow>
          andThen (if isCloudflareMode then getCloudflareBrowser env else getBrowser env)
            (\<lambda>browser. runCheck env monitor server browser)
      | Some remote \<Rightarrow>
          if remote = 0 then
            andThen (if isCloudflareMode then getCloudflareBrowser env else getBrowser env)
              (\<lambda>browser. runCheck env monitor server browser)
          else
            try_catch
              (andThen (getRemoteBrowser env remote (user_id monitor))
                 (\<lambda>browser. runCheck env monitor server browser))
              (\<lambda>error.
                 if \<not> isBrowserClosedError error then throw error
                 else
                   andThen (clearRemoteBrowserConnection env remote)
                     (\<lambda>_.
                   andThen (getRemoteBrowser env remote (user_id monitor))
                     (\<lambda>browser. runCheck env monitor server browser))))"

subsection \<open>Observations on a run\<close>

text \<open>The external calls that a program performs when started in \<open>w\<close>.\<close>

definition performed :: "'a prog \<Rightarrow> world \<Rightarrow> call list" where
  "performed m w = drop (length (trace w)) (trace (snd (m w)))"

text \<open>A program that, from every state, only appends calls that satisfy \<open>p\<close>.\<close>

definition only_calls :: "(call \<Rightarrow> bool) \<Rightarrow> 'a prog \<Rightarrow> bool" where
  "only_calls p m = (\<forall>w. \<exists>cs. trace (snd (m w)) = trace w @ cs \<and> list_all p cs)"

fun is_page_goto :: "call \<Rightarrow> bool" where
  "is_page_goto (page_goto page u c t) = True"
| "is_page_goto _ = False"






fun is_page_waitForFunction :: "call \<Rightarrow> bool" where
  "is_page_waitForFunction (page_waitForFunction pg a opts) = True"
| "is_page_waitForFunction _ = False"

text \<open>The timeout that a call of \<^verbatim>\<open>page.waitForFunction\<close> sets for its wait: that of its
  options. A wait that sets none runs under the default timeout of the page, which the
  program leaves as playwright has it.\<close>

fun waitForFunction_timeout :: "call \<Rightarrow> int option" where
  "waitForFunction_timeout (page_waitForFunction pg a opts) = opts"
| "waitForFunction_timeout _ = None"

text \<open>A program that throws from every state.\<close>

definition always_fails :: "'a prog \<Rightarrow> bool" where
  "always_fails m = (\<forall>w. \<exists>e. fst (m w) = Inl e)"

section \<open>Concrete runs\<close>

text \<open>Inputs on which the properties below are evaluated.\<close>

definition w_idle :: world where
  "w_idle = \<lparr>localBrowser = None, localCloudflareBrowser = None,
              remoteBrowserConnections = Map.empty, listeners = [],
              heartbeat_obj = \<lparr>heartbeat_status = PENDING, heartbeat_msg = msg_string [],
                               heartbeat_ping = None\<rparr>,
              trace = []\<rparr>"

text \<open>A scheme reader for the examples: the text up to the first colon, with the colon.\<close>

definition protocol_of :: "string \<Rightarrow> error + string" where
  "protocol_of s = Inr (takeWhile (\<lambda>c. c \<noteq> CHR '':'') s @ '':'')"

definition response_200 :: response where
  "response_200 = \<lparr>status = 200, responseEnd = 120\<rparr>"

definition response_503 :: response where
  "response_503 = \<lparr>status = 503, responseEnd = 80\<rparr>"

text \<open>An environment in which every call succeeds and every page load answers 200.\<close>

definition env_ok :: env where
  "env_ok = \<lparr>void_result = (\<lambda>h. Inr ()),
             browser_result = (\<lambda>h. Inr 7),
             context_result = (\<lambda>h. Inr 1),
             page_result = (\<lambda>h. Inr 2),
             response_result = (\<lambda>h. Inr (Some response_200)),
             document_result = (\<lambda>h. Inr (''Example Domain'', ''This domain is for use in examples.'')),
             remoteBrowser_result = (\<lambda>h. Inr (Some \<lparr>remoteBrowser_id = 3,
                remoteBrowser_name = ''grid'', remoteBrowser_url = ''ws://grid:3000''\<rparr>)),
             path_result = (\<lambda>h. Inr None),
             isConnected = (\<lambda>h b. True),
             URL_protocol = protocol_of,
             jwt_sign = (\<lambda>i secret. ''signed''),
             path_join = (\<lambda>d f. d @ ''/'' @ f),
             screenshotDir = ''./data/screenshots''\<rparr>"

text \<open>Both local slots hold a browser.\<close>

definition w_both_local :: world where
  "w_both_local = w_idle\<lparr>localBrowser := Some 1, localCloudflareBrowser := Some 2\<rparr>"

text \<open>Closing browser 1 throws; every other call succeeds.\<close>

definition env_close1_throws :: env where
  "env_close1_throws =
     env_ok\<lparr>void_result := (\<lambda>h. if last h = browser_close 1
                                 then Inl (Error ''Error'' ''Protocol error (Browser.close)'')
                                 else Inr ())\<rparr>"

definition server_x :: server where
  "server_x = \<lparr>jwtSecret = ''s3cret''\<rparr>"

text \<open>A local plain-mode monitor of a file URL, and one of an https URL.\<close>

definition monitor_file :: monitor where
  "monitor_file = \<lparr>monitor_id = 5, monitor_name = ''passwd'', url = ''file:///etc/passwd'',
                    subtype = [], interval = 60, remote_browser = None, user_id = 1,
                    screenshot_delay = 0, ignoreTls = False\<rparr>"

definition monitor_https :: monitor where
  "monitor_https = monitor_file\<lparr>monitor_name := ''example'', url := ''https://example.com''\<rparr>"

text \<open>Closing context 1 throws; every other call succeeds.\<close>

definition env_context_close_throws :: env where
  "env_context_close_throws =
     env_ok\<lparr>void_result := (\<lambda>h. if last h = context_close 1
                 then Inl (Error ''Error'' ''Target page, context or browser has been closed'')
                 else Inr ())\<rparr>"



text \<open>The first page load times out; later ones answer 200.\<close>

definition env_navigation_timeout :: env where
  "env_navigation_timeout =
     env_ok\<lparr>response_result := (\<lambda>h. if length (filter is_page_goto h) \<le> 1
                 then Inl (Error ''TimeoutError'' ''page.goto: Timeout 48000ms exceeded.'')
                 else Inr (Some response_200))\<rparr>"

text \<open>The first page load is refused; later ones answer 200.\<close>

definition env_navigation_refused :: env where
  "env_navigation_refused =
     env_ok\<lparr>response_result := (\<lambda>h. if length (filter is_page_goto h) \<le> 1
                 then Inl (Error ''Error'' ''page.goto: net::ERR_CONNECTION_REFUSED'')
                 else Inr (Some response_200))\<rparr>"

text \<open>A local challenge-mode monitor with an interval of 26 seconds.\<close>

definition monitor_cf :: monitor where
  "monitor_cf = monitor_https\<lparr>subtype := ''cf'', interval := 26\<rparr>"

text \<open>A challenge page: the first load answers 503 and the page shows the interstitial;
  later loads answer 200.\<close>

definition env_challenge :: env where
  "env_challenge =
     env_ok\<lparr>response_result := (\<lambda>h. if length (filter is_page_goto h) \<le> 1
                 then Inr (Some response_503) else Inr (Some response_200)),
            document_result := (\<lambda>h. Inr (''Just a moment...'', ''Verify you are human''))\<rparr>"

text \<open>The same, and the wait for the interstitial to clear times out.\<close>

definition env_challenge_stuck :: env where
  "env_challenge_stuck =
     env_challenge\<lparr>void_result := (\<lambda>h. if is_page_waitForFunction (last h)
                 then Inl (Error ''TimeoutError'' ''page.waitForFunction: Timeout exceeded.'')
                 else Inr ())\<rparr>"

text \<open>The first page load answers the given response; later loads return no response.\<close>

definition env_verify_null :: "response \<Rightarrow> env" where
  "env_verify_null first =
     env_ok\<lparr>response_result := (\<lambda>h. if length (filter is_page_goto h) \<le> 1
                 then Inr (Some first) else Inr None)\<rparr>"

text \<open>Every page load returns no response.\<close>

definition env_no_response :: env where
  "env_no_response = env_ok\<lparr>response_result := (\<lambda>h. Inr None)\<rparr>"

text \<open>The cache holds one entry, for id 3, with the given URL and handle, and the
  listener of that handle is registered.\<close>

definition w_cached :: "string \<Rightarrow> handle \<Rightarrow> world" where
  "w_cached u b =
     w_idle\<lparr>remoteBrowserConnections := [3 \<mapsto> \<lparr>connection_url = u, connection_browser = b\<rparr>],
            listeners := [(b, 3)]\<rparr>"

section \<open>Properties\<close>

subsection \<open>Control flow\<close>

lemma ret_apply [simp]: "ret x w = (Inr x, w)"
  by (simp add: ret_def)

lemma throw_apply [simp]: "throw e w = (Inl e, w)"
  by (simp add: throw_def)

lemma assign_apply [simp]: "assign f w = (Inr (), f w)"
  by (simp add: assign_def)

lemma perform_apply [simp]:
  "perform c answer w = (answer (trace w @ [c]), w\<lparr>trace := trace w @ [c]\<rparr>)"
  by (simp add: perform_def)

subsection \<open>Calls performed\<close>

text \<open>
  The calls of a composed program are the calls of its parts: a property of every call is
  proved part by part.
\<close>

lemma only_calls_ret: "only_calls p (ret x)"
  by (simp add: only_calls_def)

lemma only_calls_throw: "only_calls p (throw e)"
  by (simp add: only_calls_def)

lemma only_calls_pure: "only_calls p (\<lambda>w. (r, w))"
  by (simp add: only_calls_def)

lemma only_calls_assign: "(\<And>w. trace (f w) = trace w) \<Longrightarrow> only_calls p (assign f)"
  by (simp add: only_calls_def)

lemma only_calls_perform: "p c \<Longrightarrow> only_calls p (perform c answer)"
  by (simp add: only_calls_def)

lemma only_calls_andThen:
  assumes "only_calls p m" and "\<And>x. only_calls p (k x)"
  shows "only_calls p (andThen m k)"
  unfolding only_calls_def
proof
  fix w
  obtain r w1 where m: "m w = (r, w1)" by (cases "m w")
  from assms(1) m obtain cs where cs: "trace w1 = trace w @ cs" "list_all p cs"
    unfolding only_calls_def by (metis snd_conv)
  show "\<exists>cs. trace (snd (andThen m k w)) = trace w @ cs \<and> list_all p cs"
  proof (cases r)
    case (Inl e)
    with m cs show ?thesis by (simp add: andThen_def)
  next
    case (Inr x)
    from assms(2) [of x] obtain ds where "trace (snd (k x w1)) = trace w1 @ ds" "list_all p ds"
      unfolding only_calls_def by blast
    with m cs Inr show ?thesis by (simp add: andThen_def)
  qed
qed

lemma only_calls_try_catch:
  assumes "only_calls p m" and "\<And>e. only_calls p (h e)"
  shows "only_calls p (try_catch m h)"
  unfolding only_calls_def
proof
  fix w
  obtain r w1 where m: "m w = (r, w1)" by (cases "m w")
  from assms(1) m obtain cs where cs: "trace w1 = trace w @ cs" "list_all p cs"
    unfolding only_calls_def by (metis snd_conv)
  show "\<exists>cs. trace (snd (try_catch m h w)) = trace w @ cs \<and> list_all p cs"
  proof (cases r)
    case (Inr x)
    with m cs show ?thesis by (simp add: try_catch_def)
  next
    case (Inl e)
    from assms(2) [of e] obtain ds where "trace (snd (h e w1)) = trace w1 @ ds" "list_all p ds"
      unfolding only_calls_def by blast
    with m cs Inl show ?thesis by (simp add: try_catch_def)
  qed
qed

lemma only_calls_try_finally:
  assumes "only_calls p m" and "only_calls p f"
  shows "only_calls p (try_finally m f)"
  unfolding only_calls_def
proof
  fix w
  obtain r w1 where m: "m w = (r, w1)" by (cases "m w")
  from assms(1) m obtain cs where cs: "trace w1 = trace w @ cs" "list_all p cs"
    unfolding only_calls_def by (metis snd_conv)
  obtain r2 w2 where f: "f w1 = (r2, w2)" by (cases "f w1")
  from assms(2) f obtain ds where ds: "trace w2 = trace w1 @ ds" "list_all p ds"
    unfolding only_calls_def by (metis snd_conv)
  from m f cs ds show "\<exists>cs. trace (snd (try_finally m f w)) = trace w @ cs \<and> list_all p cs"
    by (cases r2) (simp_all add: try_finally_def)
qed

lemma only_calls_if:
  "only_calls p a \<Longrightarrow> only_calls p b \<Longrightarrow> only_calls p (if c then a else b)"
  by simp

lemma only_calls_case_prod:
  "(\<And>a b. only_calls p (f a b)) \<Longrightarrow> only_calls p (case x of (a, b) \<Rightarrow> f a b)"
  by (cases x) simp


lemmas only_calls_intros = only_calls_if only_calls_ret only_calls_throw only_calls_pure only_calls_assign
  only_calls_perform only_calls_andThen only_calls_try_catch only_calls_try_finally

lemma only_calls_branch:
  assumes "\<And>w. (\<exists>x. m w = (Inr x, w)) \<or> (\<exists>n. only_calls p n \<and> m w = n w)"
  shows "only_calls p m"
  unfolding only_calls_def
proof
  fix w
  from assms [of w] show "\<exists>cs. trace (snd (m w)) = trace w @ cs \<and> list_all p cs"
  proof
    assume "\<exists>x. m w = (Inr x, w)"
    then show ?thesis by auto
  next
    assume "\<exists>n. only_calls p n \<and> m w = n w"
    then show ?thesis unfolding only_calls_def by metis
  qed
qed


lemma only_calls_performed: "only_calls p m \<Longrightarrow> list_all p (performed m w)"
  unfolding only_calls_def performed_def by (metis append_eq_conv_conj)





lemma only_calls_getBrowser:
  assumes "\<And>s. p (Settings_get s)" "\<And>x. p (prepareChromeExecutable_call x)" "\<And>x. p (chromium_launch x)"
  shows "only_calls p (getBrowser env)"
proof -
  have "only_calls p (getBrowser_launch env)"
    unfolding getBrowser_launch_def by (intro only_calls_intros assms) simp
  then show ?thesis
    by (intro only_calls_branch) (auto simp: getBrowser_def split: option.splits)
qed

lemma only_calls_getCloudflareBrowser:
  assumes "\<And>s. p (Settings_get s)" "\<And>x. p (prepareChromeExecutable_call x)" "\<And>x. p (chromium_launch x)"
  shows "only_calls p (getCloudflareBrowser env)"
proof -
  have "only_calls p (getCloudflareBrowser_launch env)"
    unfolding getCloudflareBrowser_launch_def Let_def
    by (intro only_calls_intros assms) simp_all
  then show ?thesis
    by (intro only_calls_branch) (auto simp: getCloudflareBrowser_def split: option.splits)
qed


lemma only_calls_getRemoteBrowser_connect:
  assumes "\<And>b. p (browser_close b)" "\<And>u. p (chromium_connect u)"
  shows "only_calls p (getRemoteBrowser_connect env rb cached)"
  unfolding getRemoteBrowser_connect_def Let_def
  by (cases cached) (simp; intro only_calls_intros assms; simp)+

lemma only_calls_getRemoteBrowser:
  assumes "\<And>i u. p (RemoteBrowser_get i u)" "\<And>b. p (browser_close b)" "\<And>u. p (chromium_connect u)"
  shows "only_calls p (getRemoteBrowser env i u)"
  unfolding getRemoteBrowser_def
proof (intro only_calls_andThen only_calls_perform assms)
  fix found
  show "only_calls p (case found of None \<Rightarrow> throw (new_Error (''Remote browser #'' @ Number_toString (int i) @ '' not found''))
        | Some remoteBrowser \<Rightarrow> (\<lambda>w.
            let cacheKey = remoteBrowser_id remoteBrowser;
                cachedConnection = remoteBrowserConnections w cacheKey
            in case cachedConnection of
                 None \<Rightarrow> getRemoteBrowser_connect env remoteBrowser cachedConnection w
               | Some c \<Rightarrow>
                   if isConnected env (trace w) (connection_browser c) \<and>
                      connection_url c = remoteBrowser_url remoteBrowser
                   then ret (connection_browser c) w
                   else getRemoteBrowser_connect env remoteBrowser cachedConnection w))"
  proof (cases found)
    case None
    then show ?thesis by (simp add: only_calls_throw)
  next
    case (Some rb)
    show ?thesis
      unfolding Some option.case
      by (rule only_calls_branch)
         (use only_calls_getRemoteBrowser_connect [of p env rb, OF assms(2,3)] in
           \<open>auto simp: Let_def split: option.splits\<close>)
  qed
qed

lemma only_calls_clearRemoteBrowserConnection:
  assumes "\<And>b. p (browser_close b)"
  shows "only_calls p (clearRemoteBrowserConnection env i)"
proof (rule only_calls_branch)
  fix w
  show "(\<exists>x. clearRemoteBrowserConnection env i w = (Inr x, w)) \<or>
        (\<exists>n. only_calls p n \<and> clearRemoteBrowserConnection env i w = n w)"
  proof (cases "remoteBrowserConnections w i")
    case None
    then show ?thesis by (simp add: clearRemoteBrowserConnection_def)
  next
    case (Some c)
    have "only_calls p (andThen (try_catch (perform (browser_close (connection_browser c))
                               (void_result env)) (\<lambda>_. ret ()))
           (\<lambda>_. assign (\<lambda>w. w\<lparr>remoteBrowserConnections :=
                   (remoteBrowserConnections w)(i := None)\<rparr>)))"
      by (intro only_calls_intros assms) simp
    with Some show ?thesis
      by (auto simp: clearRemoteBrowserConnection_def)
  qed
qed

lemma only_calls_open_page:
  assumes "\<And>c. p (context_addInitScript c)" "\<And>c. p (context_newPage c)"
    "\<And>c h. p (page_setExtraHTTPHeaders c h)"
  shows "only_calls p (open_page env monitor ctx)"
  unfolding open_page_def Let_def
  by (intro only_calls_intros assms)

lemma only_calls_isCloudflareChallengePage:
  assumes "\<And>pg. p (page_evaluate pg)"
  shows "only_calls p (isCloudflareChallengePage env page)"
  unfolding isCloudflareChallengePage_def Let_def
  by (intro only_calls_intros only_calls_case_prod assms)

lemma only_calls_waitForCloudflareChallengeIfNeeded:
  assumes "\<And>pg. p (page_evaluate pg)" "\<And>pg a. p (page_waitForFunction pg a None)"
  shows "only_calls p (waitForCloudflareChallengeIfNeeded env page timeout)"
  unfolding waitForCloudflareChallengeIfNeeded_def Let_def
  by (intro only_calls_intros only_calls_isCloudflareChallengePage assms)






subsection \<open>Numbers: rounding to binary64\<close>

text \<open>
  The products of this module are exact or nearly so: on an integer budget from 0 to below
  \<open>2\<^sup>4\<^sup>8\<close> the floor of the binary64 product with \<open>0.6\<close> is the exact floor, the floor of the
  product with \<open>0.7\<close> is the exact floor or one less, and the budget of a check is
  \<open>max 1000 (800 * interval)\<close>.
\<close>

lemma binade_bounds:
  assumes "1 \<le> x"
  shows "0 \<le> binade x" and "2 ^ nat (binade x) \<le> x" and "x < 2 * 2 ^ nat (binade x)"
proof -
  from assms have pos: "0 < \<lfloor>x\<rfloor>" by simp
  have b: "binade x = bitlen \<lfloor>x\<rfloor> - 1"
    using assms by (simp add: binade_def)
  from bitlen_bounds [OF pos]
  have lo: "2 ^ nat (bitlen \<lfloor>x\<rfloor> - 1) \<le> \<lfloor>x\<rfloor>" and hi: "\<lfloor>x\<rfloor> < 2 ^ nat (bitlen \<lfloor>x\<rfloor>)"
    by simp_all
  have ge1: "1 \<le> bitlen \<lfloor>x\<rfloor>"
    using pos by (simp add: bitlen_alt_def)
  then show "0 \<le> binade x" by (simp add: b)
  have "(of_int (2 ^ nat (bitlen \<lfloor>x\<rfloor> - 1)) :: rat) \<le> of_int \<lfloor>x\<rfloor>"
    using lo by (simp only: of_int_le_iff)
  also have "\<dots> \<le> x" by simp
  finally show "2 ^ nat (binade x) \<le> x" by (simp add: b)
  have "nat (bitlen \<lfloor>x\<rfloor>) = Suc (nat (bitlen \<lfloor>x\<rfloor> - 1))"
    using ge1 by simp
  then have p: "(2::int) ^ nat (bitlen \<lfloor>x\<rfloor>) = 2 * 2 ^ nat (bitlen \<lfloor>x\<rfloor> - 1)"
    by simp
  from hi have "\<lfloor>x\<rfloor> + 1 \<le> 2 ^ nat (bitlen \<lfloor>x\<rfloor>)" by simp
  then have "(of_int (\<lfloor>x\<rfloor> + 1) :: rat) \<le> of_int (2 ^ nat (bitlen \<lfloor>x\<rfloor>))"
    by (simp only: of_int_le_iff)
  moreover have "x < of_int (\<lfloor>x\<rfloor> + 1)" by linarith
  ultimately have "x < of_int (2 ^ nat (bitlen \<lfloor>x\<rfloor>))" by linarith
  then show "x < 2 * 2 ^ nat (binade x)" by (simp add: b p)
qed

lemma binade_less:
  assumes "1 \<le> x" "x < 2 ^ k"
  shows "binade x < int k"
proof -
  have "(2::rat) ^ nat (binade x) < 2 ^ k"
    using binade_bounds(2) [OF assms(1)] assms(2) by linarith
  then have "nat (binade x) < k" by simp
  with binade_bounds(1) [OF assms(1)] show ?thesis by linarith
qed

lemma round_half_even_error: "\<bar>of_int (round_half_even q) - q\<bar> \<le> 1 / 2"
proof -
  have "of_int \<lfloor>q\<rfloor> \<le> q" "q < of_int \<lfloor>q\<rfloor> + 1" by linarith+
  then show ?thesis
    by (auto simp: round_half_even_def Let_def)
qed

lemma round_half_even_near:
  assumes "\<bar>q - of_int M\<bar> < 1 / 2"
  shows "round_half_even q = M"
proof -
  have "\<bar>(of_int (round_half_even q) :: rat) - of_int M\<bar> < 1"
    using round_half_even_error [of q] assms by linarith
  then have "\<bar>(of_int (round_half_even q - M) :: rat)\<bar> < 1" by simp
  then have "\<bar>round_half_even q - M\<bar> < 1"
    by (metis of_int_abs of_int_less_1_iff)
  then show ?thesis by simp
qed

lemma binary64_scaled:
  assumes "1 \<le> x" "binade x \<le> 52"
  shows "binary64 x = of_int (round_half_even (x * 2 ^ nat (52 - binade x))) / 2 ^ nat (52 - binade x)"
proof -
  have "pow2 (binade x - 52) = 1 / 2 ^ nat (52 - binade x)"
    using assms(2) by (cases "binade x = 52") (simp_all add: pow2_def)
  moreover have "x \<noteq> 0" "sgn x = 1" "\<bar>x\<bar> = x" using assms(1) by simp_all
  ultimately show ?thesis
    by (simp add: binary64_def Let_def)
qed

lemma scale_split:
  assumes "0 \<le> e" "e \<le> 52"
  shows "(2::rat) ^ nat (52 - e) * 2 ^ nat e = 2 ^ 52"
proof -
  have "nat (52 - e) + nat e = 52" using assms by linarith
  then show ?thesis by (metis power_add)
qed

lemma binary64_near_int:
  assumes "1 \<le> x" "binade x \<le> 52"
    and "\<bar>x - of_int M\<bar> * 2 ^ nat (52 - binade x) < 1 / 2"
  shows "binary64 x = of_int M"
proof -
  let ?k = "nat (52 - binade x)"
  have "x * 2 ^ ?k - of_int (M * 2 ^ ?k) = (x - of_int M) * 2 ^ ?k"
    by (simp add: algebra_simps)
  then have "\<bar>x * 2 ^ ?k - of_int (M * 2 ^ ?k)\<bar> = \<bar>x - of_int M\<bar> * 2 ^ ?k"
    by (simp add: abs_mult)
  with assms(3) have "round_half_even (x * 2 ^ ?k) = M * 2 ^ ?k"
    by (intro round_half_even_near) simp
  then show ?thesis
    by (simp add: binary64_scaled [OF assms(1,2)])
qed

lemma binary64_bracket:
  assumes "1 \<le> x" "x < 2 ^ 48" "of_int A \<le> x" "x + 1 / 16 \<le> of_int B"
  shows "of_int A \<le> binary64 x" and "binary64 x < of_int B"
proof -
  let ?e = "binade x"
  let ?k = "nat (52 - ?e)"
  let ?R = "round_half_even (x * 2 ^ ?k)"
  have e: "0 \<le> ?e" "?e < 48"
    using binade_bounds(1) [OF assms(1)] binade_less [OF assms(1,2)] by simp_all
  then have k: "5 \<le> ?k" by linarith
  have "(2::rat) ^ 5 \<le> 2 ^ ?k"
    using k by (intro power_increasing) simp_all
  then have s: "(32::rat) \<le> 2 ^ ?k" by simp
  have b: "binary64 x = of_int ?R / 2 ^ ?k"
    using e by (intro binary64_scaled assms) simp
  have err: "\<bar>of_int ?R - x * 2 ^ ?k\<bar> \<le> 1 / 2"
    by (rule round_half_even_error)
  have "of_int (A * 2 ^ ?k) \<le> x * 2 ^ ?k"
    using assms(3) by simp
  with err have "(of_int (A * 2 ^ ?k) :: rat) - 1 / 2 \<le> of_int ?R" by linarith
  then have "(of_int (A * 2 ^ ?k - 1) :: rat) < of_int ?R" by simp
  then have "A * 2 ^ ?k - 1 < ?R" by (simp only: of_int_less_iff)
  then have "A * 2 ^ ?k \<le> ?R" by simp
  then have "(of_int (A * 2 ^ ?k) :: rat) \<le> of_int ?R" by (simp only: of_int_le_iff)
  then show "of_int A \<le> binary64 x"
    by (simp add: b pos_le_divide_eq)
  have "x * 2 ^ ?k \<le> (of_int B - 1 / 16) * 2 ^ ?k"
    using assms(4) by (intro mult_right_mono) simp_all
  also have "\<dots> = of_int B * 2 ^ ?k - 2 ^ ?k / 16" by (simp add: algebra_simps)
  also have "\<dots> \<le> of_int B * 2 ^ ?k - 2" using s by simp
  finally have "(of_int ?R :: rat) < of_int B * 2 ^ ?k" using err by linarith
  then show "binary64 x < of_int B"
    by (simp add: b pos_divide_less_eq)
qed

lemma binary64_minus: "binary64 (- x) = - binary64 x"
  by (simp add: binary64_def Let_def)

lemma binary64_of_int:
  assumes "1 \<le> N" "N < 2 ^ 53"
  shows "binary64 (of_int N) = of_int N"
proof -
  have x1: "(1::rat) \<le> of_int N" using assms(1) by simp
  have "(of_int N :: rat) < of_int (2 ^ 53)" using assms(2) by (simp only: of_int_less_iff)
  then have "(of_int N :: rat) < 2 ^ 53" by simp
  from binade_less [OF x1 this] show ?thesis
    by (intro binary64_near_int x1) simp_all
qed

lemma binary64_6_10: "binary64 (6 / 10) = 5404319552844595 / 9007199254740992"
  by code_simp

lemma Math_floor_times_06:
  assumes "0 \<le> n" "n < 2 ^ 48"
  shows "Math_floor (js_times (of_int n) (binary64 (6 / 10))) = (6 * n) div 10"
proof (cases "n \<le> 1")
  case True
  with assms(1) have "n = 0 \<or> n = 1" by linarith
  moreover have "Math_floor (js_times (of_int 0) (binary64 (6 / 10))) = (6 * 0) div 10"
    by code_simp
  moreover have "Math_floor (js_times (of_int 1) (binary64 (6 / 10))) = (6 * 1) div 10"
    by code_simp
  ultimately show ?thesis by auto
next
  case False
  then have n2: "2 \<le> n" by simp
  define x :: rat where "x = of_int n * (5404319552844595 / 9007199254740992)"
  define d :: rat where "d = of_int n / 45035996273704960"
  define Q where "Q = (6 * n) div 10"
  define r where "r = (6 * n) mod 10"
  have nq: "(of_int n :: rat) < 2 ^ 48" "(2 :: rat) \<le> of_int n"
    using assms(2) n2 by (simp_all flip: of_int_less_iff of_int_le_iff)
  have xd: "x = of_int (6 * n) / 10 - d"
    by (simp add: x_def d_def)
  have d: "0 < d" "d < 1 / 160"
    using nq by (simp_all add: d_def)
  have split: "6 * n = 10 * Q + r"
    unfolding Q_def r_def by (rule mult_div_mod_eq [symmetric])
  then have "(of_int (6 * n) :: rat) = of_int (10 * Q + r)" by (simp only:)
  then have qr: "x = of_int Q + of_int r / 10 - d"
    by (simp add: xd)
  have r: "0 \<le> r" "r \<le> 9" by (simp_all add: r_def) 
  then have rq: "(0::rat) \<le> of_int r" "(of_int r :: rat) \<le> 9"
    by (simp_all flip: of_int_le_iff)
  have x1: "1 \<le> x" using nq d by (simp add: xd)
  have x48: "x < 2 ^ 48" using nq d by (simp add: xd)
  have "binary64 x = of_int Q \<or> (of_int Q \<le> binary64 x \<and> binary64 x < of_int (Q + 1))"
  proof (cases "r = 0")
    case True
    let ?e = "binade x"
    have e: "0 \<le> ?e" "?e < 48"
      using binade_bounds(1) [OF x1] binade_less [OF x1 x48] by simp_all
    have xQ: "x = of_int Q - d" using qr True by simp
    have "of_int n = of_int (6 * n) / (6 :: rat)" by simp
    also have "\<dots> = of_int (10 * Q) / 6" using split True by (simp only: add_0_right)
    finally have dQ: "d = of_int Q / 27021597764222976"
      by (simp add: d_def)
    have "of_int Q < 2 * 2 ^ nat ?e + (1 :: rat)"
      using binade_bounds(3) [OF x1] d xQ by linarith
    then have "(of_int Q :: rat) < of_int (2 * 2 ^ nat ?e + 1)" by simp
    then have "Q < 2 * 2 ^ nat ?e + 1" by (simp only: of_int_less_iff)
    then have "Q \<le> 2 * 2 ^ nat ?e" by simp
    then have "(of_int Q :: rat) \<le> of_int (2 * 2 ^ nat ?e)" by (simp only: of_int_le_iff)
    then have Qle: "(of_int Q :: rat) \<le> 2 * 2 ^ nat ?e" by simp
    have "of_int Q * 2 ^ nat (52 - ?e) \<le> (2 * 2 ^ nat ?e) * (2 :: rat) ^ nat (52 - ?e)"
      using Qle by (intro mult_right_mono) simp_all
    also have "\<dots> = 2 * (2 ^ nat (52 - ?e) * 2 ^ nat ?e)" by simp
    also have "\<dots> = 2 * 2 ^ 52" using e by (simp only: scale_split)
    finally have "d * 2 ^ nat (52 - ?e) \<le> 1 / 3"
      by (simp add: dQ)
    moreover have "\<bar>x - of_int Q\<bar> = d" using d xQ by simp
    ultimately have "binary64 x = of_int Q"
      using e by (intro binary64_near_int x1) simp_all
    then show ?thesis ..
  next
    case False
    with r have "1 \<le> r" by simp
    then have "(1::rat) \<le> of_int r" by (simp flip: of_int_le_iff)
    then have "of_int Q \<le> x" using d qr by simp
    moreover have "x + 1 / 16 \<le> of_int (Q + 1)" using d qr rq by simp
    ultimately show ?thesis
      using binary64_bracket [OF x1 x48] by blast
  qed
  then have "\<lfloor>binary64 x\<rfloor> = Q"
    by (auto simp: floor_eq_iff)
  moreover have "Math_floor (js_times (of_int n) (binary64 (6 / 10))) = \<lfloor>binary64 x\<rfloor>"
    by (simp only: Math_floor_def js_times_def binary64_6_10 x_def)
  ultimately show ?thesis
    by (simp only: Q_def)
qed

lemma binary64_7_10: "binary64 (7 / 10) = 3152519739159347 / 4503599627370496"
  by code_simp

lemma Math_floor_times_07:
  assumes "0 \<le> n" "n < 2 ^ 48"
  shows "(7 * n) div 10 - 1 \<le> Math_floor (js_times (of_int n) (binary64 (7 / 10))) \<and>
         Math_floor (js_times (of_int n) (binary64 (7 / 10))) \<le> (7 * n) div 10"
proof (cases "n \<le> 1")
  case True
  with assms(1) have "n = 0 \<or> n = 1" by linarith
  moreover have "Math_floor (js_times (of_int 0) (binary64 (7 / 10))) = 0"
    by code_simp
  moreover have "Math_floor (js_times (of_int 1) (binary64 (7 / 10))) = 0"
    by code_simp
  ultimately show ?thesis by auto
next
  case False
  then have n2: "2 \<le> n" by simp
  define x :: rat where "x = of_int n * (3152519739159347 / 4503599627370496)"
  define d :: rat where "d = of_int n / 22517998136852480"
  define Q where "Q = (7 * n) div 10"
  define r where "r = (7 * n) mod 10"
  have nq: "(of_int n :: rat) < 2 ^ 48" "(2 :: rat) \<le> of_int n"
    using assms(2) n2 by (simp_all flip: of_int_less_iff of_int_le_iff)
  have xd: "x = of_int (7 * n) / 10 - d"
    by (simp add: x_def d_def)
  have d: "0 < d" "d < 1 / 80"
    using nq by (simp_all add: d_def)
  have split: "7 * n = 10 * Q + r"
    unfolding Q_def r_def by (rule mult_div_mod_eq [symmetric])
  then have "(of_int (7 * n) :: rat) = of_int (10 * Q + r)" by (simp only:)
  then have qr: "x = of_int Q + of_int r / 10 - d"
    by (simp add: xd)
  have r: "0 \<le> r" "r \<le> 9" by (simp_all add: r_def)
  then have rq: "(0::rat) \<le> of_int r" "(of_int r :: rat) \<le> 9"
    by (simp_all flip: of_int_le_iff)
  have x1: "1 \<le> x" using nq d by (simp add: xd)
  have x48: "x < 2 ^ 48" using nq d by (simp add: xd)
  have "of_int (Q - 1) \<le> x" using d qr rq by simp
  moreover have "x + 1 / 16 \<le> of_int (Q + 1)" using d qr rq by simp
  ultimately have "of_int (Q - 1) \<le> binary64 x \<and> binary64 x < of_int (Q + 1)"
    using binary64_bracket [OF x1 x48] by blast
  then have "Q - 1 \<le> \<lfloor>binary64 x\<rfloor> \<and> \<lfloor>binary64 x\<rfloor> < Q + 1"
    by (simp only: le_floor_iff floor_less_iff)
  then have "Q - 1 \<le> \<lfloor>binary64 x\<rfloor> \<and> \<lfloor>binary64 x\<rfloor> \<le> Q"
    by linarith
  moreover have "Math_floor (js_times (of_int n) (binary64 (7 / 10))) = \<lfloor>binary64 x\<rfloor>"
    by (simp only: Math_floor_def js_times_def binary64_7_10 x_def)
  ultimately show ?thesis
    by (simp only: Q_def)
qed

lemma binary64_8_10: "binary64 (8 / 10) = 3602879701896397 / 4503599627370496"
  by code_simp

lemma times_08_exact:
  assumes "1 \<le> i" "i < 2 ^ 40"
  shows "js_times (js_times (of_int i) 1000) (binary64 (8 / 10)) = of_int (800 * i)"
proof -
  define N where "N = i * 1000"
  define x :: rat where "x = of_int N * (3602879701896397 / 4503599627370496)"
  define d :: rat where "d = of_int N / 22517998136852480"
  let ?e = "binade x"
  have "i * 1000 < 2 ^ 40 * 1000" using assms(2) by simp
  then have N: "1 \<le> N" "N < 2 ^ 53" using assms(1) by (simp_all add: N_def)
  have inner: "js_times (of_int i) 1000 = of_int N"
    using binary64_of_int [OF N] by (simp add: js_times_def N_def)
  have iq: "(1::rat) \<le> of_int i" "(of_int i :: rat) < 2 ^ 40"
    using assms by (simp_all flip: of_int_less_iff of_int_le_iff)
  have xd: "x = of_int (800 * i) + d"
    by (simp add: x_def d_def N_def)
  have dm: "d = of_int (800 * i) / 18014398509481984"
    by (simp add: d_def N_def)
  have d: "0 < d" "d < 1" using iq by (simp_all add: d_def N_def)
  have x1: "1 \<le> x" using iq d by (simp add: xd)
  have x53: "x < 2 ^ 53" using iq d by (simp add: xd)
  have e: "0 \<le> ?e" "?e < 53"
    using binade_bounds(1) [OF x1] binade_less [OF x1 x53] by simp_all
  have "of_int (800 * i) < 2 * (2::rat) ^ nat ?e"
    using binade_bounds(3) [OF x1] d xd by linarith
  then have "of_int (800 * i) * 2 ^ nat (52 - ?e) < (2 * 2 ^ nat ?e) * (2 :: rat) ^ nat (52 - ?e)"
    by (intro mult_strict_right_mono) simp_all
  also have "\<dots> = 2 * (2 ^ nat (52 - ?e) * 2 ^ nat ?e)" by simp
  also have "\<dots> = 2 * 2 ^ 52" using e by (simp only: scale_split)
  finally have "d * 2 ^ nat (52 - ?e) < 1 / 2"
    by (simp add: dm)
  moreover have "\<bar>x - of_int (800 * i)\<bar> = d" using d xd by simp
  ultimately have "binary64 x = of_int (800 * i)"
    using e by (intro binary64_near_int x1) simp_all
  moreover have "js_times (js_times (of_int i) 1000) (binary64 (8 / 10)) = binary64 x"
    unfolding inner by (simp only: js_times_def binary64_8_10 x_def)
  ultimately show ?thesis by (simp only:)
qed

lemma check_timeout_exact:
  assumes "\<bar>interval monitor\<bar> < 2 ^ 40"
  shows "check_timeout monitor = max 1000 (800 * interval monitor)"
proof -
  let ?i = "interval monitor"
  have "js_times (js_times (of_int ?i) 1000) (binary64 (8 / 10)) = of_int (800 * ?i)"
  proof -
    consider "?i = 0" | "1 \<le> ?i" | "1 \<le> - ?i" by linarith
    then show ?thesis
    proof cases
      case 1
      have "js_times (js_times (of_int 0) 1000) (binary64 (8 / 10)) = of_int (800 * 0)"
        by code_simp
      with 1 show ?thesis by simp
    next
      case 2
      with assms show ?thesis by (intro times_08_exact) simp_all
    next
      case 3
      with assms have "js_times (js_times (of_int (- ?i)) 1000) (binary64 (8 / 10)) =
          of_int (800 * (- ?i))"
        by (intro times_08_exact) simp_all
      then show ?thesis
        by (simp add: js_times_def binary64_minus)
    qed
  qed
  then have "Math_floor (js_times (js_times (of_int ?i) 1000) (binary64 (8 / 10))) = 800 * ?i"
    by (simp only: Math_floor_def floor_of_int)
  then show ?thesis
    by (simp only: check_timeout_def)
qed

subsection \<open>Recovery of a dropped remote connection\<close>










subsection \<open>The scheme of the target URL\<close>

lemma always_fails_throw: "always_fails (throw e)"
  by (simp add: always_fails_def)

lemma always_fails_andThen: "(\<And>x. always_fails (k x)) \<Longrightarrow> always_fails (andThen m k)"
  unfolding always_fails_def andThen_def
  by (auto split: prod.splits sum.splits)

lemma always_fails_try_catch:
  "always_fails m \<Longrightarrow> (\<And>e. always_fails (h e)) \<Longrightarrow> always_fails (try_catch m h)"
  unfolding always_fails_def try_catch_def
  by (auto split: prod.splits sum.splits) (metis fst_conv sum.distinct(1))

lemma always_fails_if:
  "always_fails a \<Longrightarrow> always_fails b \<Longrightarrow> always_fails (if c then a else b)"
  by simp

lemma context_close_swallowed:
  "\<exists>w'. try_catch (perform (context_close ctx) (void_result env)) (\<lambda>_. ret ()) w = (Inr (), w')"
  by (cases "void_result env (trace w @ [context_close ctx])") (simp_all add: try_catch_def)

lemma always_fails_finally_close:
  assumes "always_fails m"
  shows "always_fails (try_finally m (try_catch (perform (context_close ctx) (void_result env)) (\<lambda>_. ret ())))"
  unfolding always_fails_def
proof
  fix w
  obtain r w1 where m: "m w = (r, w1)" by (cases "m w")
  with assms obtain e where "r = Inl e" unfolding always_fails_def by (metis fst_conv)
  moreover obtain w2 where
    "try_catch (perform (context_close ctx) (void_result env)) (\<lambda>_. ret ()) w1 = (Inr (), w2)"
    using context_close_swallowed by blast
  ultimately show "\<exists>e. fst (try_finally m (try_catch (perform (context_close ctx) (void_result env)) (\<lambda>_. ret ())) w) = Inl e"
    using m by (simp add: try_finally_def)
qed

lemma runCheck_try_invalid:
  assumes "URL_protocol env (url monitor) = Inr protocol"
    and "protocol \<noteq> ''http:''" "protocol \<noteq> ''https:''"
  shows "runCheck_try env monitor server ctx =
           andThen (open_page env monitor ctx) (\<lambda>_. throw (new_Error ''Invalid url protocol, only http and https are allowed.''))"
  using assms
  by (auto simp: runCheck_try_def andThen_def new_Error_def fun_eq_iff
      split: prod.splits sum.splits)

lemma runCheck_try_valid:
  assumes "URL_protocol env (url monitor) = Inr protocol"
    and "protocol = ''http:'' \<or> protocol = ''https:''"
  shows "runCheck_try env monitor server ctx =
           andThen (open_page env monitor ctx) (\<lambda>page.
             andThen (navigate env monitor page (check_timeout monitor))
               (screenshot_and_classify env monitor server page))"
  using assms
  by (auto simp: runCheck_try_def andThen_def Let_def fun_eq_iff split: prod.splits sum.splits)

lemma runCheck_invalid:
  assumes "URL_protocol env (url monitor) = Inr protocol"
    and "protocol \<noteq> ''http:''" "protocol \<noteq> ''https:''"
  shows "always_fails (runCheck env monitor server browser)"
    and "only_calls (\<lambda>c. \<not> is_page_goto c) (runCheck env monitor server browser)"
  unfolding runCheck_def runCheck_try_invalid [OF assms]
  by (intro always_fails_andThen always_fails_finally_close always_fails_throw
      only_calls_intros only_calls_open_page; simp)+

lemma check_invalid:
  assumes "URL_protocol env (url monitor) = Inr protocol"
    and "protocol \<noteq> ''http:''" "protocol \<noteq> ''https:''"
  shows "only_calls (\<lambda>c. \<not> is_page_goto c) (check env monitor server)"
proof -
  let ?p = "\<lambda>c. \<not> is_page_goto c"
  have run: "only_calls ?p (runCheck env monitor server browser)" for browser
    by (rule runCheck_invalid [OF assms])
  have local: "only_calls ?p (andThen g (runCheck env monitor server))"
    if "g = getCloudflareBrowser env \<or> g = getBrowser env" for g
    using that
    by (auto intro!: only_calls_andThen run only_calls_getBrowser only_calls_getCloudflareBrowser)
  have remote: "only_calls ?p (try_catch
                 (andThen (getRemoteBrowser env remote (user_id monitor))
                   (runCheck env monitor server))
                 (\<lambda>error.
                     if \<not> isBrowserClosedError error then throw error
                     else andThen (clearRemoteBrowserConnection env remote)
                           (\<lambda>_. andThen
                                 (getRemoteBrowser env remote
                                   (user_id monitor))
                                 (runCheck env monitor server))))" for remote
    by (intro only_calls_intros run only_calls_getRemoteBrowser
        only_calls_clearRemoteBrowserConnection) simp_all
  show ?thesis
    unfolding check_def Let_def
    by (auto split: option.splits intro: local remote)
qed

lemma check_invalid_fails:
  assumes "URL_protocol env (url monitor) = Inr protocol"
    and "protocol \<noteq> ''http:''" "protocol \<noteq> ''https:''"
  shows "always_fails (check env monitor server)"
proof -
  have run: "always_fails (runCheck env monitor server browser)" for browser
    by (rule runCheck_invalid [OF assms])
  have attempt: "always_fails (andThen m (runCheck env monitor server))" for m
    by (intro always_fails_andThen run)
  have remote: "always_fails (try_catch
                 (andThen (getRemoteBrowser env remote (user_id monitor))
                   (runCheck env monitor server))
                 (\<lambda>error.
                     if \<not> isBrowserClosedError error then throw error
                     else andThen (clearRemoteBrowserConnection env remote)
                           (\<lambda>_. andThen
                                 (getRemoteBrowser env remote
                                   (user_id monitor))
                                 (runCheck env monitor server))))" for remote
    by (intro always_fails_try_catch always_fails_if always_fails_throw
        always_fails_andThen attempt)
  show ?thesis
    unfolding check_def Let_def
    by (auto split: option.splits intro: attempt remote)
qed

text \<open>
  C2. When the scheme of the monitor's URL is neither \<open>http:\<close> nor \<open>https:\<close>, the check
  fails and performs no \<open>page_goto\<close> at all, in either mode and in both attempts of the
  remote mode; a run that has set up its page fails there with the invalid-protocol
  error and performs no further call. When the scheme is \<open>http:\<close> or \<open>https:\<close>, the
  validation does not throw: a run that has set up its page goes on with the navigation.
\<close>

theorem invalid_scheme_rejected:
  assumes "URL_protocol env (url monitor) = Inr protocol"
  shows "(protocol \<noteq> ''http:'' \<and> protocol \<noteq> ''https:'' \<longrightarrow>
            (\<exists>e. fst (check env monitor server w) = Inl e) \<and>
            list_all (\<lambda>c. \<not> is_page_goto c) (performed (check env monitor server) w) \<and>
            (\<forall>ctx page w1 w2. open_page env monitor ctx w1 = (Inr page, w2) \<longrightarrow>
               runCheck_try env monitor server ctx w1 =
                 (Inl (new_Error ''Invalid url protocol, only http and https are allowed.''),
                  w2))) \<and>
         (protocol = ''http:'' \<or> protocol = ''https:'' \<longrightarrow>
            (\<forall>ctx page w1 w2. open_page env monitor ctx w1 = (Inr page, w2) \<longrightarrow>
               runCheck_try env monitor server ctx w1 =
                 andThen (navigate env monitor page (check_timeout monitor))
                   (screenshot_and_classify env monitor server page) w2))"
proof (intro conjI impI allI)
  assume bad: "protocol \<noteq> ''http:'' \<and> protocol \<noteq> ''https:''"
  from check_invalid_fails [OF assms] bad
  show "\<exists>e. fst (check env monitor server w) = Inl e"
    by (simp add: always_fails_def)
  from check_invalid [OF assms] bad
  show "list_all (\<lambda>c. \<not> is_page_goto c) (performed (check env monitor server) w)"
    by (simp add: only_calls_performed)
  fix ctx page w1 w2
  assume "open_page env monitor ctx w1 = (Inr page, w2)"
  with runCheck_try_invalid [OF assms] bad
  show "runCheck_try env monitor server ctx w1 =
          (Inl (new_Error ''Invalid url protocol, only http and https are allowed.''), w2)"
    by (simp add: andThen_def)
next
  fix ctx page w1 w2
  assume "protocol = ''http:'' \<or> protocol = ''https:''"
    and "open_page env monitor ctx w1 = (Inr page, w2)"
  with runCheck_try_valid [OF assms]
  show "runCheck_try env monitor server ctx w1 =
          andThen (navigate env monitor page (check_timeout monitor))
            (screenshot_and_classify env monitor server page) w2"
    by (simp add: andThen_def)
qed

theorem invalid_scheme_rejected_witness:
  "URL_protocol env_ok (url monitor_file) = Inr ''file:'' \<and>
   (\<exists>e. fst (check env_ok monitor_file server_x w_idle) = Inl e) \<and>
   list_all (\<lambda>c. \<not> is_page_goto c) (performed (check env_ok monitor_file server_x) w_idle) \<and>
   runCheck_try env_ok monitor_file server_x 1 w_idle =
     (Inl (new_Error ''Invalid url protocol, only http and https are allowed.''),
      w_idle\<lparr>trace := [context_newPage 1]\<rparr>) \<and>
   URL_protocol env_ok (url monitor_https) = Inr ''https:'' \<and>
   runCheck_try env_ok monitor_https server_x 1 w_idle =
     andThen (navigate env_ok monitor_https 2 (check_timeout monitor_https))
       (screenshot_and_classify env_ok monitor_https server_x 2)
       (w_idle\<lparr>trace := [context_newPage 1]\<rparr>)"
proof -
  have f: "URL_protocol env_ok (url monitor_file) = Inr ''file:''"
    by (simp add: env_ok_def monitor_file_def protocol_of_def)
  have h: "URL_protocol env_ok (url monitor_https) = Inr ''https:''"
    by (simp add: env_ok_def monitor_https_def monitor_file_def protocol_of_def)
  have o: "open_page env_ok monitor_file 1 w_idle = (Inr 2, w_idle\<lparr>trace := [context_newPage 1]\<rparr>)"
    by (simp add: open_page_def andThen_def env_ok_def monitor_file_def w_idle_def)
  have p: "open_page env_ok monitor_https 1 w_idle = (Inr 2, w_idle\<lparr>trace := [context_newPage 1]\<rparr>)"
    by (simp add: open_page_def andThen_def env_ok_def monitor_https_def monitor_file_def
        w_idle_def)
  show ?thesis
    using invalid_scheme_rejected [OF f, of server_x w_idle]
      invalid_scheme_rejected [OF h, of server_x w_idle] f h o p
    by simp
qed

subsection \<open>The browsing context is closed\<close>

lemma runCheck_closes_context:
  assumes "context_result env (trace w @ [browser_newContext browser (contextOptions_of monitor)])
             = Inr ctx"
    and "runCheck_try env monitor server ctx
           (w\<lparr>trace := trace w @ [browser_newContext browser (contextOptions_of monitor)]\<rparr>)
         = (r, w')"
  shows "runCheck env monitor server browser w =
           (r, w'\<lparr>trace := trace w' @ [context_close ctx]\<rparr>)"
  using assms
  by (cases "void_result env (trace w' @ [context_close ctx])")
     (simp_all add: runCheck_def andThen_def try_finally_def try_catch_def)

text \<open>
  C3. In a run whose \<open>browser_newContext\<close> call returns a context, the outcome of the run
  is the outcome of its \<^verbatim>\<open>try\<close> block, whether that is a value or an error and whatever
  the environment answers to the close; the close of that context is the last call of
  the run and the only change it makes to the state.
\<close>

theorem context_always_closed:
  assumes "context_result env
             (trace w @ [browser_newContext browser (contextOptions_of monitor)]) = Inr ctx"
  shows "runCheck env monitor server browser w =
           (let w1 = w\<lparr>trace := trace w @
                        [browser_newContext browser (contextOptions_of monitor)]\<rparr>;
                outcome = runCheck_try env monitor server ctx w1
            in (fst outcome,
                (snd outcome)\<lparr>trace := trace (snd outcome) @ [context_close ctx]\<rparr>))"
  using runCheck_closes_context [OF assms, of server]
  by (simp add: Let_def prod_eq_iff)

theorem context_always_closed_witness:
  "context_result env_context_close_throws
     (trace w_idle @ [browser_newContext 7 (contextOptions_of monitor_https)]) = Inr 1 \<and>
   void_result env_context_close_throws
     (trace (snd (runCheck env_context_close_throws monitor_https server_x 7 w_idle))) =
     Inl (Error ''Error'' ''Target page, context or browser has been closed'') \<and>
   fst (runCheck env_context_close_throws monitor_https server_x 7 w_idle) = Inr () \<and>
   last (trace (snd (runCheck env_context_close_throws monitor_https server_x 7 w_idle))) =
     context_close 1 \<and>
   fst (runCheck env_ok monitor_file server_x 7 w_idle) =
     Inl (new_Error ''Invalid url protocol, only http and https are allowed.'') \<and>
   last (trace (snd (runCheck env_ok monitor_file server_x 7 w_idle))) = context_close 1"
proof -
  have c: "context_result env_context_close_throws
     (trace w_idle @ [browser_newContext 7 (contextOptions_of monitor_https)]) = Inr 1"
    by (simp add: env_context_close_throws_def env_ok_def)
  have d: "context_result env_ok
     (trace w_idle @ [browser_newContext 7 (contextOptions_of monitor_file)]) = Inr 1"
    by (simp add: env_ok_def)
  have r: "fst (runCheck_try env_context_close_throws monitor_https server_x 1
             (w_idle\<lparr>trace := trace w_idle @
                [browser_newContext 7 (contextOptions_of monitor_https)]\<rparr>)) = Inr ()"
    by code_simp
  have s: "fst (runCheck_try env_ok monitor_file server_x 1
             (w_idle\<lparr>trace := trace w_idle @
                [browser_newContext 7 (contextOptions_of monitor_file)]\<rparr>)) =
           Inl (new_Error ''Invalid url protocol, only http and https are allowed.'')"
    by code_simp
  have v: "void_result env_context_close_throws (h @ [context_close 1]) =
             Inl (Error ''Error'' ''Target page, context or browser has been closed'')" for h
    by (simp add: env_context_close_throws_def)
  show ?thesis
    using context_always_closed [OF c, of server_x] context_always_closed [OF d, of server_x]
      c r s v
    by (simp add: Let_def)
qed

subsection \<open>The fallback load of the plain mode\<close>

text \<open>
  C4. In plain mode the first load uses \<open>networkidle\<close> and the full budget. A response
  (or none) ends the navigation with that one load. An error of the first load that
  \<open>isNavigationTimeoutError\<close> accepts (name \<^verbatim>\<open>TimeoutError\<close>, or \<^verbatim>\<open>Timeout\<close> or \<^verbatim>\<open>timed out\<close>
  in the message) is followed by exactly one more load, with \<open>domcontentloaded\<close> and
  the timeout \<open>max 1000 (6 * timeout div 10)\<close>, whose outcome is the outcome of the
  navigation; any other error of the first load is thrown with no second load. The budget
  is an integer below \<open>2\<^sup>4\<^sup>8\<close>, for which the binary64 product with \<open>0.6\<close> has the exact
  floor.
\<close>

theorem plain_navigation_fallback:
  assumes "subtype monitor \<noteq> ''cf''" "0 \<le> timeout" "timeout < 2 ^ 48"
  shows "navigate env monitor page timeout w =
    (let first = page_goto page (url monitor) networkidle timeout;
         retry = page_goto page (url monitor) domcontentloaded
                   (max 1000 ((6 * timeout) div 10))
     in case response_result env (trace w @ [first]) of
          Inr res \<Rightarrow> (Inr res, w\<lparr>trace := trace w @ [first]\<rparr>)
        | Inl error \<Rightarrow>
            if isNavigationTimeoutError error
            then (response_result env (trace w @ [first, retry]),
                  w\<lparr>trace := trace w @ [first, retry]\<rparr>)
            else (Inl error, w\<lparr>trace := trace w @ [first]\<rparr>))"
proof -
  have ft: "Math_floor (js_times (of_int timeout) (binary64 (6 / 10))) = (6 * timeout) div 10"
    by (rule Math_floor_times_06) fact+
  show ?thesis
    unfolding navigate_def Let_def ft using assms(1)
    by (simp add: try_catch_def split: sum.splits)
qed

theorem plain_navigation_fallback_witness:
  "subtype monitor_https \<noteq> ''cf'' \<and> check_timeout monitor_https = 48000 \<and>
   navigate env_navigation_timeout monitor_https 2 48000 w_idle =
     (Inr (Some response_200),
      w_idle\<lparr>trace := [page_goto 2 ''https://example.com'' networkidle 48000,
                         page_goto 2 ''https://example.com'' domcontentloaded 28800]\<rparr>) \<and>
   navigate env_navigation_refused monitor_https 2 48000 w_idle =
     (Inl (Error ''Error'' ''page.goto: net::ERR_CONNECTION_REFUSED''),
      w_idle\<lparr>trace := [page_goto 2 ''https://example.com'' networkidle 48000]\<rparr>)"
proof -
  have s: "subtype monitor_https \<noteq> ''cf''"
    by (simp add: monitor_https_def monitor_file_def)
  have t: "check_timeout monitor_https = 48000"
    by code_simp
  have c: "isNavigationTimeoutError
             (Error ''TimeoutError'' ''page.goto: Timeout 48000ms exceeded.'')"
    "\<not> isNavigationTimeoutError (Error ''Error'' ''page.goto: net::ERR_CONNECTION_REFUSED'')"
    by code_simp+
  have u: "url monitor_https = ''https://example.com''"
    by (simp add: monitor_https_def monitor_file_def)
  show ?thesis
    using plain_navigation_fallback [OF s, of 48000 env_navigation_timeout 2 w_idle]
      plain_navigation_fallback [OF s, of 48000 env_navigation_refused 2 w_idle] s t c
    by (simp add: env_navigation_timeout_def env_navigation_refused_def env_ok_def w_idle_def
        u Let_def)
qed

subsection \<open>The two loads of the challenge-aware mode\<close>

lemma waitForCloudflareChallengeIfNeeded_eq:
  assumes "document_result env (trace w @ [page_evaluate page]) = Inr (title, body)"
  shows "waitForCloudflareChallengeIfNeeded env page timeout w =
    (let content = toLowerCase title @ [CHR 0x0A] @ toLowerCase body;
         window = max 3000 (min 20000
                    (Math_floor (js_times (of_int timeout) (binary64 (7 / 10)))));
         wait = page_waitForFunction page (Some window) None
     in if \<not> list_ex (\<lambda>marker. String_includes content marker) markers
        then (Inr (), w\<lparr>trace := trace w @ [page_evaluate page]\<rparr>)
        else (case void_result env (trace w @ [page_evaluate page, wait]) of
                Inr u \<Rightarrow> Inr ()
              | Inl e \<Rightarrow> Inl (new_Error
                  ''Cloudflare challenge was not solved within the timeout.''),
              w\<lparr>trace := trace w @ [page_evaluate page, wait]\<rparr>))"
  using assms
  by (simp add: waitForCloudflareChallengeIfNeeded_def isCloudflareChallengePage_def
      andThen_def try_catch_def Let_def split: sum.splits)

lemma navigate_challenge:
  assumes "subtype monitor = ''cf''" "0 \<le> timeout" "timeout < 2 ^ 48"
    and "response_result env
           (trace w @ [page_goto page (url monitor) domcontentloaded timeout]) = Inr first"
    and "waitForCloudflareChallengeIfNeeded env page timeout
           (w\<lparr>trace := trace w @ [page_goto page (url monitor) domcontentloaded timeout]\<rparr>)
         = (Inr (), w1)"
  shows "navigate env monitor page timeout w =
    (let verify = page_goto page (url monitor) domcontentloaded
                    (max 3000 ((6 * timeout) div 10))
     in case response_result env (trace w1 @ [verify]) of
          Inl e \<Rightarrow> (Inl e, w1\<lparr>trace := trace w1 @ [verify]\<rparr>)
        | Inr second \<Rightarrow>
            (Inr (case second of Some v \<Rightarrow> Some v | None \<Rightarrow> first),
             w1\<lparr>trace := trace w1 @ [verify]\<rparr>))"
proof -
  have ft: "Math_floor (js_times (of_int timeout) (binary64 (6 / 10))) = (6 * timeout) div 10"
    by (rule Math_floor_times_06) fact+
  show ?thesis
    unfolding navigate_def Let_def ft using assms(1,4,5)
    by (simp add: andThen_def split: sum.splits)
qed

text \<open>
  C5, as the code has it. In challenge-aware mode, after the first load has returned and
  the challenge wait has passed, the page is loaded again with the timeout
  \<open>max 3000 (6 * timeout div 10)\<close>. An error of the second load is thrown. Otherwise the
  response handed to the classification is the second load's response when there is one,
  and the first load's response when the second load returns none.
\<close>

theorem challenge_navigation_response:
  assumes "subtype monitor = ''cf''" "0 \<le> timeout" "timeout < 2 ^ 48"
    and "response_result env
           (trace w @ [page_goto page (url monitor) domcontentloaded timeout]) = Inr first"
    and "waitForCloudflareChallengeIfNeeded env page timeout
           (w\<lparr>trace := trace w @ [page_goto page (url monitor) domcontentloaded timeout]\<rparr>)
         = (Inr (), w1)"
  shows "andThen (navigate env monitor page timeout)
           (screenshot_and_classify env monitor server page) w =
    (let verify = page_goto page (url monitor) domcontentloaded
                    (max 3000 ((6 * timeout) div 10));
         w2 = w1\<lparr>trace := trace w1 @ [verify]\<rparr>
     in case response_result env (trace w1 @ [verify]) of
          Inl e \<Rightarrow> (Inl e, w2)
        | Inr second \<Rightarrow>
            screenshot_and_classify env monitor server page
              (case second of Some v \<Rightarrow> Some v | None \<Rightarrow> first) w2)"
proof -
  let ?verify = "page_goto page (url monitor) domcontentloaded (max 3000 ((6 * timeout) div 10))"
  show ?thesis
  proof (cases "response_result env (trace w1 @ [?verify])")
    case (Inl e)
    with navigate_challenge [OF assms]
    have "navigate env monitor page timeout w = (Inl e, w1\<lparr>trace := trace w1 @ [?verify]\<rparr>)"
      by (simp add: Let_def)
    with Inl show ?thesis
      by (simp add: andThen_def Let_def)
  next
    case (Inr second)
    with navigate_challenge [OF assms]
    have "navigate env monitor page timeout w =
            (Inr (case second of Some v \<Rightarrow> Some v | None \<Rightarrow> first),
             w1\<lparr>trace := trace w1 @ [?verify]\<rparr>)"
      by (simp add: Let_def)
    with Inr show ?thesis
      by (simp add: andThen_def Let_def)
  qed
qed

theorem challenge_navigation_response_witness:
  "subtype monitor_cf = ''cf'' \<and> check_timeout monitor_cf = 20800 \<and>
   response_result env_challenge
     (trace w_idle @ [page_goto 2 (url monitor_cf) domcontentloaded 20800]) =
     Inr (Some response_503) \<and>
   andThen (navigate env_challenge monitor_cf 2 20800)
     (screenshot_and_classify env_challenge monitor_cf server_x 2) w_idle =
     screenshot_and_classify env_challenge monitor_cf server_x 2 (Some response_200)
       (w_idle\<lparr>trace := [page_goto 2 (url monitor_cf) domcontentloaded 20800,
                          page_evaluate 2, page_waitForFunction 2 (Some 14559) None,
                          page_goto 2 (url monitor_cf) domcontentloaded 12480]\<rparr>) \<and>
   fst (check env_challenge monitor_cf server_x w_idle) = Inr () \<and>
   heartbeat_msg (heartbeat_obj (snd (check env_challenge monitor_cf server_x w_idle))) =
     msg_number 200"
proof -
  let ?g = "page_goto 2 (url monitor_cf) domcontentloaded 20800"
  let ?w = "w_idle\<lparr>trace := trace w_idle @ [?g]\<rparr>"
  let ?w1 = "w_idle\<lparr>trace := [?g, page_evaluate 2, page_waitForFunction 2 (Some 14559) None]\<rparr>"
  have s: "subtype monitor_cf = ''cf''"
    by (simp add: monitor_cf_def)
  have t: "check_timeout monitor_cf = 20800"
    by code_simp
  have f: "response_result env_challenge (trace w_idle @ [?g]) = Inr (Some response_503)"
    by (simp add: env_challenge_def env_ok_def w_idle_def)
  have d: "document_result env_challenge (trace ?w @ [page_evaluate 2]) =
             Inr (''Just a moment...'', ''Verify you are human'')"
    by (simp add: env_challenge_def env_ok_def)
  have m: "list_ex (String_includes
      (toLowerCase ''Just a moment...'' @ CHR 0x0A #
       toLowerCase ''Verify you are human'')) markers"
    by code_simp
  have n: "max 3000 (min 20000 (Math_floor (js_times (of_int 20800) (binary64 (7 / 10))))) =
      14559"
    by code_simp
  have v: "void_result env_challenge h = Inr ()" for h
    by (simp add: env_challenge_def env_ok_def)
  have wt: "waitForCloudflareChallengeIfNeeded env_challenge 2 20800 ?w = (Inr (), ?w1)"
    unfolding waitForCloudflareChallengeIfNeeded_eq [OF d] Let_def n
    by (simp add: m v w_idle_def)
  have r: "response_result env_challenge (h @ [?g, c, d, page_goto p u x y]) =
             Inr (Some response_200)" for h c d p u x y
    by (simp add: env_challenge_def env_ok_def)
  have e2e: "fst (check env_challenge monitor_cf server_x w_idle) = Inr ()"
    "heartbeat_msg (heartbeat_obj (snd (check env_challenge monitor_cf server_x w_idle))) =
     msg_number 200"
    by code_simp+
  show ?thesis
    using challenge_navigation_response [OF s _ _ f wt, of server_x] s t f e2e r [of "[]"]
    by (simp add: Let_def)
qed

text \<open>
  C5 as the specification states it fails: the first load answers 503, the second load
  returns no response, and the run is classified by the first response: it fails with
  the status error \<open>503\<close>.
\<close>

theorem second_null_uses_first_counterexample:
  "response_result (env_verify_null response_503)
     [browser_newContext 7 (contextOptions_of monitor_cf),
      context_addInitScript 1, context_newPage 1,
      page_setExtraHTTPHeaders 2 [(''Accept-Language'', CLOUDFLARE_ACCEPT_LANGUAGE)],
      page_goto 2 (url monitor_cf) domcontentloaded 20800,
      page_evaluate 2,
      page_goto 2 (url monitor_cf) domcontentloaded 12480] = Inr None \<and>
   take 7 (performed (runCheck (env_verify_null response_503) monitor_cf server_x 7) w_idle) =
     [browser_newContext 7 (contextOptions_of monitor_cf),
      context_addInitScript 1, context_newPage 1,
      page_setExtraHTTPHeaders 2 [(''Accept-Language'', CLOUDFLARE_ACCEPT_LANGUAGE)],
      page_goto 2 (url monitor_cf) domcontentloaded 20800,
      page_evaluate 2,
      page_goto 2 (url monitor_cf) domcontentloaded 12480] \<and>
   fst (runCheck (env_verify_null response_503) monitor_cf server_x 7 w_idle) =
     Inl (new_Error ''503'')"
  by code_simp

subsection \<open>The challenge waiter\<close>

text \<open>
  What the waiter does, for every page and budget. With no marker in the lower-cased
  title and body it returns after the one evaluation, without waiting. With a marker it
  makes one \<open>page_waitForFunction\<close> call, returns when that call returns and throws the
  challenge-timeout error when that call throws. The number that the program computes,
  \<^verbatim>\<open>Math.max(3000, Math.min(20000, Math.floor(timeout * 0.7)))\<close> in binary64 arithmetic,
  is for a budget from 0 to below \<open>2\<^sup>4\<^sup>8\<close> the clamp of \<open>7 * timeout div 10\<close> or of one
  less. The call receives it in the position of \<^verbatim>\<open>arg\<close> and receives no options.
\<close>

lemma waitForCloudflareChallengeIfNeeded_cases:
  assumes "document_result env (trace w @ [page_evaluate page]) = Inr (title, body)"
  shows "(let content = toLowerCase title @ [CHR 0x0A] @ toLowerCase body;
              window = max 3000 (min 20000
                         (Math_floor (js_times (of_int timeout) (binary64 (7 / 10)))));
              wait = page_waitForFunction page (Some window) None
          in waitForCloudflareChallengeIfNeeded env page timeout w =
               (if \<not> list_ex (\<lambda>marker. String_includes content marker) markers
                then (Inr (), w\<lparr>trace := trace w @ [page_evaluate page]\<rparr>)
                else (case void_result env (trace w @ [page_evaluate page, wait]) of
                        Inr u \<Rightarrow> Inr ()
                      | Inl e \<Rightarrow> Inl (new_Error
                          ''Cloudflare challenge was not solved within the timeout.''),
                      w\<lparr>trace := trace w @ [page_evaluate page, wait]\<rparr>)) \<and>
             (0 \<le> timeout \<and> timeout < 2 ^ 48 \<longrightarrow>
                max 3000 (min 20000 ((7 * timeout) div 10 - 1)) \<le> window \<and>
                window \<le> max 3000 (min 20000 ((7 * timeout) div 10))))"
proof -
  have "0 \<le> timeout \<and> timeout < 2 ^ 48 \<longrightarrow>
      max 3000 (min 20000 ((7 * timeout) div 10 - 1))
        \<le> max 3000 (min 20000 (Math_floor (js_times (of_int timeout) (binary64 (7 / 10))))) \<and>
      max 3000 (min 20000 (Math_floor (js_times (of_int timeout) (binary64 (7 / 10)))))
        \<le> max 3000 (min 20000 ((7 * timeout) div 10))"
    using Math_floor_times_07 [of timeout] by auto
  then show ?thesis
    unfolding Let_def waitForCloudflareChallengeIfNeeded_eq [OF assms, unfolded Let_def]
    by (simp only: simp_thms)
qed

text \<open>
  In no run does a call of the waiter set the timeout of a wait: whatever the page, the
  budget and the answers of the environment, every call that the waiter performs is
  without a timeout option.
\<close>

lemma waitForCloudflareChallengeIfNeeded_sets_no_timeout:
  "list_all (\<lambda>c. waitForFunction_timeout c = None)
     (performed (waitForCloudflareChallengeIfNeeded env page timeout) w)"
proof -
  have "only_calls (\<lambda>c. waitForFunction_timeout c = None)
          (waitForCloudflareChallengeIfNeeded env page timeout)"
    by (rule only_calls_waitForCloudflareChallengeIfNeeded) simp_all
  then obtain cs where
      "trace (snd (waitForCloudflareChallengeIfNeeded env page timeout w)) = trace w @ cs"
      "list_all (\<lambda>c. waitForFunction_timeout c = None) cs"
    unfolding only_calls_def by blast
  then show ?thesis
    by (simp add: performed_def)
qed

text \<open>
  C6. The waiter is called with the budget 20800, that of a monitor with an interval of
  26 seconds, on a page that shows the interstitial and never clears. The window of the
  specification is \<open>max 3000 (min 20000 \<lfloor>0.7 \<times> 20800\<rfloor>) = 14560\<close> milliseconds. The program
  computes 14559, because \<^verbatim>\<open>20800 * 0.7\<close> is \<^verbatim>\<open>14559.999999999998\<close> in binary64, and
  passes \<^verbatim>\<open>{ timeout: 14559 }\<close> to \<^verbatim>\<open>page.waitForFunction\<close> as the argument of the page
  function: the call has no timeout option, so the wait is not bounded by the window; it
  ends with the default timeout of the page. The error of the wait is then thrown as the
  challenge-timeout error.
\<close>

theorem challenge_wait_sets_no_timeout:
  "check_timeout monitor_cf = 20800 \<and>
   max 3000 (min 20000 ((7 * check_timeout monitor_cf) div 10)) = 14560 \<and>
   performed (waitForCloudflareChallengeIfNeeded env_challenge_stuck 2
     (check_timeout monitor_cf)) w_idle =
     [page_evaluate 2, page_waitForFunction 2 (Some 14559) None] \<and>
   waitForFunction_timeout (last (performed (waitForCloudflareChallengeIfNeeded
     env_challenge_stuck 2 (check_timeout monitor_cf)) w_idle)) = None \<and>
   fst (waitForCloudflareChallengeIfNeeded env_challenge_stuck 2
     (check_timeout monitor_cf) w_idle) =
     Inl (new_Error ''Cloudflare challenge was not solved within the timeout.'')"
proof -
  have budget: "check_timeout monitor_cf = 20800"
    by code_simp
  have number: "max 3000 (min 20000
      (Math_floor (js_times (of_int 20800) (binary64 (7 / 10))))) = 14559"
    by code_simp
  have page: "document_result env_challenge_stuck (trace w_idle @ [page_evaluate 2]) =
      Inr (''Just a moment...'', ''Verify you are human'')"
    by (simp add: env_challenge_stuck_def env_challenge_def env_ok_def)
  have marker: "list_ex (String_includes
      (toLowerCase ''Just a moment...'' @ CHR 0x0A #
       toLowerCase ''Verify you are human'')) markers"
    by code_simp
  have stuck: "void_result env_challenge_stuck (h @ [c, page_waitForFunction p a opts]) =
      Inl (Error ''TimeoutError'' ''page.waitForFunction: Timeout exceeded.'')" for h c p a opts
    by (simp add: env_challenge_stuck_def)
  have run: "waitForCloudflareChallengeIfNeeded env_challenge_stuck 2 20800 w_idle =
      (Inl (new_Error ''Cloudflare challenge was not solved within the timeout.''),
       w_idle\<lparr>trace := trace w_idle @
         [page_evaluate 2, page_waitForFunction 2 (Some 14559) None]\<rparr>)"
    unfolding waitForCloudflareChallengeIfNeeded_eq [OF page, unfolded Let_def] number
    by (simp add: marker stuck)
  have idle: "trace w_idle = []"
    by (simp add: w_idle_def)
  show ?thesis
    unfolding budget by (simp add: run performed_def idle)
qed

subsection \<open>The remote browser pool\<close>

lemma getRemoteBrowser_connect_eq:
  "getRemoteBrowser_connect env rb cached w =
    (let key = remoteBrowser_id rb;
         stale = (case cached of None \<Rightarrow> [] | Some c \<Rightarrow> [browser_close (connection_browser c)]);
         calls = trace w @ stale @ [chromium_connect (remoteBrowser_url rb)];
         evicted = (case cached of None \<Rightarrow> remoteBrowserConnections w
                    | Some c \<Rightarrow> (remoteBrowserConnections w)(key := None))
     in case browser_result env calls of
          Inl e \<Rightarrow> (Inl e, w\<lparr>remoteBrowserConnections := evicted, trace := calls\<rparr>)
        | Inr h \<Rightarrow>
            (Inr h, w\<lparr>remoteBrowserConnections :=
                        evicted(key \<mapsto> \<lparr>connection_url = remoteBrowser_url rb,
                                          connection_browser = h\<rparr>),
                      listeners := listeners w @ [(h, key)],
                      trace := calls\<rparr>))"
proof (cases cached)
  case None
  then show ?thesis
    by (simp add: getRemoteBrowser_connect_def andThen_def Let_def split: sum.splits)
next
  case (Some c)
  then show ?thesis
    by (cases "void_result env (trace w @ [browser_close (connection_browser c)])")
       (simp_all add: getRemoteBrowser_connect_def andThen_def try_catch_def Let_def
          split: sum.splits)
qed

lemma getRemoteBrowser_eq:
  assumes "remoteBrowser_result env (trace w @ [RemoteBrowser_get i u]) = Inr (Some rb)"
  shows "getRemoteBrowser env i u w =
    (let w0 = w\<lparr>trace := trace w @ [RemoteBrowser_get i u]\<rparr>;
         cached = remoteBrowserConnections w (remoteBrowser_id rb)
     in case cached of
          None \<Rightarrow> getRemoteBrowser_connect env rb cached w0
        | Some c \<Rightarrow>
            if isConnected env (trace w0) (connection_browser c) \<and>
               connection_url c = remoteBrowser_url rb
            then (Inr (connection_browser c), w0)
            else getRemoteBrowser_connect env rb cached w0)"
  using assms
  by (simp add: getRemoteBrowser_def andThen_def Let_def split: option.splits)

lemma on_disconnected_eq:
  "on_disconnected k b w =
     (if \<exists>c. remoteBrowserConnections w k = Some c \<and> connection_browser c = b
      then w\<lparr>remoteBrowserConnections := (remoteBrowserConnections w)(k := None)\<rparr>
      else w)"
  by (auto simp: on_disconnected_def split: option.splits)

lemma fold_disconnected_cache:
  "remoteBrowserConnections
     (fold (\<lambda>(remoteConnection, cacheKey) w'.
              if remoteConnection = b then on_disconnected cacheKey remoteConnection w' else w')
        ls w) k =
   (if (b, k) \<in> set ls \<and>
       (\<exists>c. remoteBrowserConnections w k = Some c \<and> connection_browser c = b)
    then None else remoteBrowserConnections w k)"
proof (induction ls arbitrary: w)
  case Nil
  then show ?case by simp
next
  case (Cons l ls)
  obtain h key where l: "l = (h, key)" by (cases l)
  show ?case
    unfolding l by (simp add: Cons.IH on_disconnected_eq) auto
qed

lemma emit_disconnected_cache:
  "remoteBrowserConnections (emit_disconnected b w) k =
   (if (b, k) \<in> set (listeners w) \<and>
       (\<exists>c. remoteBrowserConnections w k = Some c \<and> connection_browser c = b)
    then None else remoteBrowserConnections w k)"
  unfolding emit_disconnected_def by (rule fold_disconnected_cache)

text \<open>
  C7. Let the lookup of the record succeed. \<open>getRemoteBrowser\<close> returns the cached handle,
  with no other call and no change of the cache, if and only if the cache has an entry
  for the record's id whose handle reports connected and whose URL is the record's URL.
  In every other case it closes the handle of the entry, when there is one, whatever
  that close answers, and then connects to the record's URL, in this order; when the
  connection is made, the entry of the id is the new handle with the record's URL and a
  listener for the new handle is registered; when the connection fails, the error is
  thrown and the id has no entry. Entries of other ids are not touched. The cache is a
  map from ids to entries, so an id never has two entries. The listener of a handle
  removes the entry of its id only when that entry holds the same handle, and changes
  nothing else; the disconnect event of a handle removes exactly the entries that hold
  this handle under an id for which a listener of the handle is registered.
\<close>

theorem remote_cache_validity:
  assumes "remoteBrowser_result env (trace w @ [RemoteBrowser_get i u]) = Inr (Some rb)"
  shows
   "(let key = remoteBrowser_id rb;
         w0 = w\<lparr>trace := trace w @ [RemoteBrowser_get i u]\<rparr>;
         cached = remoteBrowserConnections w key;
         valid = (\<exists>c. cached = Some c \<and> isConnected env (trace w0) (connection_browser c) \<and>
                      connection_url c = remoteBrowser_url rb);
         stale = (case cached of None \<Rightarrow> []
                  | Some c \<Rightarrow> [browser_close (connection_browser c)]);
         calls = trace w0 @ stale @ [chromium_connect (remoteBrowser_url rb)];
         outcome = getRemoteBrowser env i u w
     in (valid \<longleftrightarrow> (\<exists>c. cached = Some c \<and> outcome = (Inr (connection_browser c), w0))) \<and>
        (\<not> valid \<longrightarrow>
           trace (snd outcome) = calls \<and>
           (\<forall>k. k \<noteq> key \<longrightarrow>
              remoteBrowserConnections (snd outcome) k = remoteBrowserConnections w k) \<and>
           (\<forall>h. browser_result env calls = Inr h \<longrightarrow>
              fst outcome = Inr h \<and>
              remoteBrowserConnections (snd outcome) key =
                Some \<lparr>connection_url = remoteBrowser_url rb, connection_browser = h\<rparr> \<and>
              listeners (snd outcome) = listeners w @ [(h, key)]) \<and>
           (\<forall>e. browser_result env calls = Inl e \<longrightarrow>
              fst outcome = Inl e \<and>
              remoteBrowserConnections (snd outcome) key = None \<and>
              listeners (snd outcome) = listeners w)) \<and>
        (\<forall>k b w'. on_disconnected k b w' =
           (if \<exists>c. remoteBrowserConnections w' k = Some c \<and> connection_browser c = b
            then w'\<lparr>remoteBrowserConnections := (remoteBrowserConnections w')(k := None)\<rparr>
            else w')) \<and>
        (\<forall>k b w'. remoteBrowserConnections (emit_disconnected b w') k =
           (if (b, k) \<in> set (listeners w') \<and>
               (\<exists>c. remoteBrowserConnections w' k = Some c \<and> connection_browser c = b)
            then None else remoteBrowserConnections w' k)))"
proof -
  let ?key = "remoteBrowser_id rb"
  let ?w0 = "w\<lparr>trace := trace w @ [RemoteBrowser_get i u]\<rparr>"
  let ?cached = "remoteBrowserConnections w ?key"
  let ?valid = "\<exists>c. ?cached = Some c \<and> isConnected env (trace ?w0) (connection_browser c) \<and>
                      connection_url c = remoteBrowser_url rb"
  let ?stale = "case ?cached of None \<Rightarrow> [] | Some c \<Rightarrow> [browser_close (connection_browser c)]"
  let ?calls = "trace ?w0 @ ?stale @ [chromium_connect (remoteBrowser_url rb)]"
  let ?outcome = "getRemoteBrowser env i u w"
  have hit: "?outcome = (Inr (connection_browser c), ?w0)"
    if "?cached = Some c" "isConnected env (trace ?w0) (connection_browser c)"
      "connection_url c = remoteBrowser_url rb" for c
    using that by (simp add: getRemoteBrowser_eq [OF assms] Let_def)
  have miss: "?outcome = getRemoteBrowser_connect env rb ?cached ?w0" if "\<not> ?valid"
    using that by (auto simp: getRemoteBrowser_eq [OF assms] Let_def split: option.splits)
  have miss_trace: "trace (snd ?outcome) = ?calls" if "\<not> ?valid"
    unfolding miss [OF that] getRemoteBrowser_connect_eq Let_def
    by (simp split: sum.splits option.splits)
  have iff: "?valid \<longleftrightarrow> (\<exists>c. ?cached = Some c \<and> ?outcome = (Inr (connection_browser c), ?w0))"
  proof
    assume ?valid
    then show "\<exists>c. ?cached = Some c \<and> ?outcome = (Inr (connection_browser c), ?w0)"
      using hit by blast
  next
    assume "\<exists>c. ?cached = Some c \<and> ?outcome = (Inr (connection_browser c), ?w0)"
    then obtain c where c: "?cached = Some c" "?outcome = (Inr (connection_browser c), ?w0)"
      by blast
    show ?valid
    proof (rule ccontr)
      assume "\<not> ?valid"
      from miss_trace [OF this] c(2) show False by simp
    qed
  qed
  have frame: "remoteBrowserConnections (snd ?outcome) k = remoteBrowserConnections w k"
    if "\<not> ?valid" "k \<noteq> ?key" for k
    unfolding miss [OF that(1)] getRemoteBrowser_connect_eq Let_def using that(2)
    by (simp split: sum.splits option.splits)
  have connected: "fst ?outcome = Inr h \<and>
      remoteBrowserConnections (snd ?outcome) ?key =
        Some \<lparr>connection_url = remoteBrowser_url rb, connection_browser = h\<rparr> \<and>
      listeners (snd ?outcome) = listeners w @ [(h, ?key)]"
    if "\<not> ?valid" "browser_result env ?calls = Inr h" for h
    unfolding miss [OF that(1)] getRemoteBrowser_connect_eq Let_def using that(2)
    by simp
  have refused: "fst ?outcome = Inl e \<and> remoteBrowserConnections (snd ?outcome) ?key = None \<and>
      listeners (snd ?outcome) = listeners w"
    if "\<not> ?valid" "browser_result env ?calls = Inl e" for e
    unfolding miss [OF that(1)] getRemoteBrowser_connect_eq Let_def using that(2)
    by (simp split: option.splits)
  show ?thesis
    unfolding Let_def
    using iff miss_trace frame connected refused on_disconnected_eq emit_disconnected_cache
    by blast
qed

theorem remote_cache_validity_witness:
  "remoteBrowser_result env_ok (trace (w_cached ''ws://grid:3000'' 7) @ [RemoteBrowser_get 3 1]) =
     Inr (Some \<lparr>remoteBrowser_id = 3, remoteBrowser_name = ''grid'',
                remoteBrowser_url = ''ws://grid:3000''\<rparr>) \<and>
   getRemoteBrowser env_ok 3 1 (w_cached ''ws://grid:3000'' 7) =
     (Inr 7, (w_cached ''ws://grid:3000'' 7)\<lparr>trace := [RemoteBrowser_get 3 1]\<rparr>) \<and>
   fst (getRemoteBrowser env_ok 3 1 (w_cached ''ws://old:3000'' 4)) = Inr 7 \<and>
   trace (snd (getRemoteBrowser env_ok 3 1 (w_cached ''ws://old:3000'' 4))) =
     [RemoteBrowser_get 3 1, browser_close 4, chromium_connect ''ws://grid:3000''] \<and>
   remoteBrowserConnections (snd (getRemoteBrowser env_ok 3 1 (w_cached ''ws://old:3000'' 4))) 3 =
     Some \<lparr>connection_url = ''ws://grid:3000'', connection_browser = 7\<rparr> \<and>
   listeners (snd (getRemoteBrowser env_ok 3 1 (w_cached ''ws://old:3000'' 4))) =
     [(4, 3), (7, 3)] \<and>
   remoteBrowserConnections
     (emit_disconnected 4 (snd (getRemoteBrowser env_ok 3 1 (w_cached ''ws://old:3000'' 4)))) 3 =
     Some \<lparr>connection_url = ''ws://grid:3000'', connection_browser = 7\<rparr> \<and>
   remoteBrowserConnections
     (emit_disconnected 7 (snd (getRemoteBrowser env_ok 3 1 (w_cached ''ws://old:3000'' 4)))) 3 =
     None"
proof -
  let ?rb = "\<lparr>remoteBrowser_id = 3, remoteBrowser_name = ''grid'',
                remoteBrowser_url = ''ws://grid:3000''\<rparr>"
  have l: "remoteBrowser_result env_ok (trace (w_cached a b) @ [RemoteBrowser_get 3 1]) =
     Inr (Some ?rb)" for a b
    by (simp add: env_ok_def)
  have w: "remoteBrowserConnections (w_cached a b) 3 =
             Some \<lparr>connection_url = a, connection_browser = b\<rparr>"
    "listeners (w_cached a b) = [(b, 3)]" "trace (w_cached a b) = []" for a b
    by (simp_all add: w_cached_def w_idle_def)
  have e: "isConnected env_ok h b" "browser_result env_ok h = Inr 7" for h b
    by (simp_all add: env_ok_def)
  show ?thesis
    using remote_cache_validity [OF l, of "''ws://grid:3000''" 7]
      remote_cache_validity [OF l, of "''ws://old:3000''" 4] l
    by (simp add: Let_def w e)
qed

subsection \<open>resetChrome\<close>

lemma resetChrome_first_fails:
  assumes "localBrowser w = Some b1"
    and "void_result env (trace w @ [browser_close b1]) = Inl e"
  shows "resetChrome env w = (Inl e, w\<lparr>trace := trace w @ [browser_close b1]\<rparr>)"
  using assms by (simp add: resetChrome_def andThen_def)

lemma resetChrome_second_fails:
  assumes "localBrowser w = None \<or>
           (\<exists>b1. localBrowser w = Some b1 \<and>
                 void_result env (trace w @ [browser_close b1]) = Inr ())"
    and "localCloudflareBrowser w = Some b2"
    and "void_result env (trace (snd (resetChrome env w))) = Inl e"
  shows "fst (resetChrome env w) = Inl e \<and>
         localBrowser (snd (resetChrome env w)) = None \<and>
         localCloudflareBrowser (snd (resetChrome env w)) = Some b2 \<and>
         last (trace (snd (resetChrome env w))) = browser_close b2"
  using assms by (auto simp: resetChrome_def andThen_def split: option.splits sum.splits)

lemma resetChrome_all_succeed:
  assumes "\<And>h. h \<noteq> [] \<Longrightarrow> void_result env (trace w @ h) = Inr ()"
  shows "fst (resetChrome env w) = Inr () \<and>
         localBrowser (snd (resetChrome env w)) = None \<and>
         localCloudflareBrowser (snd (resetChrome env w)) = None \<and>
         performed (resetChrome env) w =
           map browser_close (case localBrowser w of None \<Rightarrow> [] | Some b \<Rightarrow> [b]) @
           map browser_close (case localCloudflareBrowser w of None \<Rightarrow> [] | Some b \<Rightarrow> [b])"
proof -
  have one: "void_result env (trace w @ [c]) = Inr ()" for c
    using assms [of "[c]"] by simp
  have two: "void_result env (trace w @ [c, d]) = Inr ()" for c d
    using assms [of "[c, d]"] by simp
  show ?thesis
    by (cases "localBrowser w"; cases "localCloudflareBrowser w")
       (simp_all add: resetChrome_def andThen_def performed_def one two)
qed

text \<open>
  C8, as the code has it. \<open>resetChrome\<close> closes the handle of the plain slot and the
  handle of the challenge slot, each when present, and clears both slots, provided the
  closes succeed. It does not ignore an error of a close: when closing the plain handle
  throws, the error reaches the caller, the plain slot keeps its handle, and the
  challenge handle is neither closed nor cleared; when closing the challenge handle
  throws, the error reaches the caller and the challenge slot keeps its handle.
\<close>

theorem resetChrome_closes_and_clears:
  "((\<forall>h. h \<noteq> [] \<longrightarrow> void_result env (trace w @ h) = Inr ()) \<longrightarrow>
      fst (resetChrome env w) = Inr () \<and>
      localBrowser (snd (resetChrome env w)) = None \<and>
      localCloudflareBrowser (snd (resetChrome env w)) = None \<and>
      performed (resetChrome env) w =
        map browser_close (case localBrowser w of None \<Rightarrow> [] | Some b \<Rightarrow> [b]) @
        map browser_close (case localCloudflareBrowser w of None \<Rightarrow> [] | Some b \<Rightarrow> [b])) \<and>
   (\<forall>b1 e. localBrowser w = Some b1 \<and>
        void_result env (trace w @ [browser_close b1]) = Inl e \<longrightarrow>
      resetChrome env w = (Inl e, w\<lparr>trace := trace w @ [browser_close b1]\<rparr>)) \<and>
   (\<forall>b2 e. (localBrowser w = None \<or>
           (\<exists>b1. localBrowser w = Some b1 \<and>
                 void_result env (trace w @ [browser_close b1]) = Inr ())) \<and>
        localCloudflareBrowser w = Some b2 \<and>
        void_result env (trace (snd (resetChrome env w))) = Inl e \<longrightarrow>
      fst (resetChrome env w) = Inl e \<and>
      localBrowser (snd (resetChrome env w)) = None \<and>
      localCloudflareBrowser (snd (resetChrome env w)) = Some b2 \<and>
      last (trace (snd (resetChrome env w))) = browser_close b2)"
  using resetChrome_all_succeed [of env w] resetChrome_first_fails [of w _ env]
    resetChrome_second_fails [of w env]
  by blast

theorem resetChrome_closes_and_clears_witness:
  "fst (resetChrome env_ok w_both_local) = Inr () \<and>
   localBrowser (snd (resetChrome env_ok w_both_local)) = None \<and>
   localCloudflareBrowser (snd (resetChrome env_ok w_both_local)) = None \<and>
   performed (resetChrome env_ok) w_both_local = [browser_close 1, browser_close 2] \<and>
   resetChrome env_close1_throws w_both_local =
     (Inl (Error ''Error'' ''Protocol error (Browser.close)''),
      w_both_local\<lparr>trace := trace w_both_local @ [browser_close 1]\<rparr>)"
  using resetChrome_closes_and_clears [of env_ok w_both_local]
    resetChrome_closes_and_clears [of env_close1_throws w_both_local]
  by (simp add: env_ok_def env_close1_throws_def w_both_local_def w_idle_def)

text \<open>
  C8 as the specification states it fails: with both slots filled and a plain handle
  whose close throws, \<open>resetChrome\<close> throws that error, never closes the challenge handle
  and clears neither slot.
\<close>

theorem resetChrome_close_error_counterexample:
  "fst (resetChrome env_close1_throws w_both_local) =
     Inl (Error ''Error'' ''Protocol error (Browser.close)'') \<and>
   localBrowser (snd (resetChrome env_close1_throws w_both_local)) = Some 1 \<and>
   localCloudflareBrowser (snd (resetChrome env_close1_throws w_both_local)) = Some 2 \<and>
   trace (snd (resetChrome env_close1_throws w_both_local)) = [browser_close 1]"
  by (simp add: resetChrome_def andThen_def env_ok_def env_close1_throws_def
      w_both_local_def w_idle_def)

subsection \<open>A navigation without a response\<close>

lemma screenshot_and_classify_None:
  "screenshot_and_classify env monitor server page None w =
     (Inl (new_Error ''Failed to navigate to page: no response returned by browser.''), w)"
  by (simp add: screenshot_and_classify_def)

text \<open>
  C9, as the code has it. When the navigation ends with no response, the run fails with
  the no-response error and performs no further call: no other load, no screenshot. The
  error has no connection-closed marker, so the remote mode does not run again. In plain
  mode a first load that returns no response ends the navigation with no response. In
  challenge-aware mode the navigation ends with the second load's response when there is
  one and with the first load's response otherwise: it ends with no response only when
  both loads return none.
\<close>

theorem no_response_fails_the_run:
  "(\<forall>w'. navigate env monitor page timeout w = (Inr None, w') \<longrightarrow>
      andThen (navigate env monitor page timeout)
        (screenshot_and_classify env monitor server page) w =
      (Inl (new_Error ''Failed to navigate to page: no response returned by browser.''), w')) \<and>
   \<not> isBrowserClosedError
       (new_Error ''Failed to navigate to page: no response returned by browser.'') \<and>
   (subtype monitor \<noteq> ''cf'' \<and>
    response_result env (trace w @ [page_goto page (url monitor) networkidle timeout]) =
      Inr None \<longrightarrow>
      navigate env monitor page timeout w =
        (Inr None, w\<lparr>trace := trace w @
                      [page_goto page (url monitor) networkidle timeout]\<rparr>)) \<and>
   (subtype monitor = ''cf'' \<and> 0 \<le> timeout \<and> timeout < 2 ^ 48 \<longrightarrow>
      (\<forall>first second w1.
         response_result env
           (trace w @ [page_goto page (url monitor) domcontentloaded timeout]) = Inr first \<and>
         waitForCloudflareChallengeIfNeeded env page timeout
           (w\<lparr>trace := trace w @ [page_goto page (url monitor) domcontentloaded timeout]\<rparr>)
           = (Inr (), w1) \<and>
         response_result env
           (trace w1 @ [page_goto page (url monitor) domcontentloaded
                          (max 3000 ((6 * timeout) div 10))]) = Inr second \<longrightarrow>
         navigate env monitor page timeout w =
           (Inr (case second of Some v \<Rightarrow> Some v | None \<Rightarrow> first),
            w1\<lparr>trace := trace w1 @ [page_goto page (url monitor) domcontentloaded
                                       (max 3000 ((6 * timeout) div 10))]\<rparr>)))"
proof (intro conjI allI impI)
  fix w'
  assume "navigate env monitor page timeout w = (Inr None, w')"
  then show "andThen (navigate env monitor page timeout)
        (screenshot_and_classify env monitor server page) w =
      (Inl (new_Error ''Failed to navigate to page: no response returned by browser.''), w')"
    by (simp add: andThen_def screenshot_and_classify_None)
next
  show "\<not> isBrowserClosedError
       (new_Error ''Failed to navigate to page: no response returned by browser.'')"
    by code_simp
next
  assume "subtype monitor \<noteq> ''cf'' \<and>
    response_result env (trace w @ [page_goto page (url monitor) networkidle timeout]) =
      Inr None"
  then show "navigate env monitor page timeout w =
        (Inr None, w\<lparr>trace := trace w @
                      [page_goto page (url monitor) networkidle timeout]\<rparr>)"
    by (simp add: navigate_def try_catch_def)
next
  fix first second w1
  assume "subtype monitor = ''cf'' \<and> 0 \<le> timeout \<and> timeout < 2 ^ 48"
    and "response_result env
           (trace w @ [page_goto page (url monitor) domcontentloaded timeout]) = Inr first \<and>
         waitForCloudflareChallengeIfNeeded env page timeout
           (w\<lparr>trace := trace w @ [page_goto page (url monitor) domcontentloaded timeout]\<rparr>)
           = (Inr (), w1) \<and>
         response_result env
           (trace w1 @ [page_goto page (url monitor) domcontentloaded
                          (max 3000 ((6 * timeout) div 10))]) = Inr second"
  then show "navigate env monitor page timeout w =
           (Inr (case second of Some v \<Rightarrow> Some v | None \<Rightarrow> first),
            w1\<lparr>trace := trace w1 @ [page_goto page (url monitor) domcontentloaded
                                       (max 3000 ((6 * timeout) div 10))]\<rparr>)"
    using navigate_challenge [of monitor timeout env w page first w1]
    by (simp add: Let_def)
qed

theorem no_response_fails_the_run_witness:
  "navigate env_no_response monitor_https 2 48000 w_idle =
     (Inr None, w_idle\<lparr>trace := trace w_idle @
        [page_goto 2 (url monitor_https) networkidle 48000]\<rparr>) \<and>
   andThen (navigate env_no_response monitor_https 2 48000)
     (screenshot_and_classify env_no_response monitor_https server_x 2) w_idle =
     (Inl (new_Error ''Failed to navigate to page: no response returned by browser.''),
      w_idle\<lparr>trace := trace w_idle @
        [page_goto 2 (url monitor_https) networkidle 48000]\<rparr>) \<and>
   fst (navigate env_no_response monitor_cf 2 20800 w_idle) = Inr None \<and>
   fst (check env_no_response monitor_cf server_x w_idle) =
     Inl (new_Error ''Failed to navigate to page: no response returned by browser.'')"
proof -
  let ?g = "page_goto 2 (url monitor_cf) domcontentloaded 20800"
  let ?w = "w_idle\<lparr>trace := trace w_idle @ [?g]\<rparr>"
  let ?wait = "waitForCloudflareChallengeIfNeeded env_no_response 2 20800 ?w"
  have s: "subtype monitor_https \<noteq> ''cf''" "subtype monitor_cf = ''cf''"
    by (simp_all add: monitor_cf_def monitor_https_def monitor_file_def)
  have r: "response_result env_no_response h = Inr None" for h
    by (simp add: env_no_response_def)
  have "fst ?wait = Inr ()"
    by code_simp
  then have wt: "?wait = (Inr (), snd ?wait)"
    by (simp add: prod_eq_iff)
  have c: "fst (check env_no_response monitor_cf server_x w_idle) =
     Inl (new_Error ''Failed to navigate to page: no response returned by browser.'')"
    by code_simp
  from no_response_fails_the_run [of env_no_response monitor_https 2 48000 w_idle server_x] s r
  have "navigate env_no_response monitor_https 2 48000 w_idle =
     (Inr None, w_idle\<lparr>trace := trace w_idle @
        [page_goto 2 (url monitor_https) networkidle 48000]\<rparr>)"
    "andThen (navigate env_no_response monitor_https 2 48000)
     (screenshot_and_classify env_no_response monitor_https server_x 2) w_idle =
     (Inl (new_Error ''Failed to navigate to page: no response returned by browser.''),
      w_idle\<lparr>trace := trace w_idle @
        [page_goto 2 (url monitor_https) networkidle 48000]\<rparr>)"
    by simp_all
  moreover
  from no_response_fails_the_run [of env_no_response monitor_cf 2 20800 w_idle server_x] s r wt
  have "fst (navigate env_no_response monitor_cf 2 20800 w_idle) = Inr None"
    by simp
  ultimately show ?thesis using c by simp
qed

text \<open>
  C9 as the specification states it fails: in challenge-aware mode the first load
  answers 200 and the second load returns no response; the run does not fail, it reports
  \<open>UP\<close> from the first response.
\<close>

theorem second_null_still_up_counterexample:
  "response_result (env_verify_null response_200)
     [browser_newContext 7 (contextOptions_of monitor_cf),
      context_addInitScript 1, context_newPage 1,
      page_setExtraHTTPHeaders 2 [(''Accept-Language'', CLOUDFLARE_ACCEPT_LANGUAGE)],
      page_goto 2 (url monitor_cf) domcontentloaded 20800,
      page_evaluate 2,
      page_goto 2 (url monitor_cf) domcontentloaded 12480] = Inr None \<and>
   take 7 (performed (runCheck (env_verify_null response_200) monitor_cf server_x 7) w_idle) =
     [browser_newContext 7 (contextOptions_of monitor_cf),
      context_addInitScript 1, context_newPage 1,
      page_setExtraHTTPHeaders 2 [(''Accept-Language'', CLOUDFLARE_ACCEPT_LANGUAGE)],
      page_goto 2 (url monitor_cf) domcontentloaded 20800,
      page_evaluate 2,
      page_goto 2 (url monitor_cf) domcontentloaded 12480] \<and>
   fst (runCheck (env_verify_null response_200) monitor_cf server_x 7 w_idle) = Inr () \<and>
   heartbeat_status (heartbeat_obj
     (snd (runCheck (env_verify_null response_200) monitor_cf server_x 7 w_idle))) = UP"
  by code_simp

subsection \<open>Screenshot and classification\<close>

lemma screenshot_and_classify_Some:
  "screenshot_and_classify env monitor server page (Some r) w =
    (let shot = page_screenshot page (path_join env (screenshotDir env)
                  (jwt_sign env (monitor_id monitor) (jwtSecret server) @ ''.png''));
         delay = (if 0 < screenshot_delay monitor
                  then [page_waitForTimeout page (screenshot_delay monitor)] else [])
     in case (if 0 < screenshot_delay monitor
              then void_result env (trace w @ delay) else Inr ()) of
          Inl e \<Rightarrow> (Inl e, w\<lparr>trace := trace w @ delay\<rparr>)
        | Inr u \<Rightarrow>
           (case void_result env (trace w @ delay @ [shot]) of
              Inl e \<Rightarrow> (Inl e, w\<lparr>trace := trace w @ delay @ [shot]\<rparr>)
            | Inr u \<Rightarrow>
                if 200 \<le> status r \<and> status r < 400
                then (Inr (), w\<lparr>trace := trace w @ delay @ [shot],
                        heartbeat_obj := (heartbeat_obj w)
                          \<lparr>heartbeat_status := UP,
                           heartbeat_msg := msg_number (status r),
                           heartbeat_ping := Some (responseEnd r)\<rparr>\<rparr>)
                else (Inl (new_Error (Number_toString (status r))),
                      w\<lparr>trace := trace w @ delay @ [shot]\<rparr>)))"
  by (simp add: screenshot_and_classify_def andThen_def Let_def split: sum.splits)

text \<open>
  C10. With a response \<open>r\<close> from the navigation, the run waits the configured delay (when
  positive), then takes the screenshot under the directory and the signed name, and
  only then looks at the status. When the wait and the screenshot have succeeded, the
  screenshot call is the last call; a status from 200 to 399 sets the heartbeat
  and a status outside throws the status as text and leaves the heartbeat alone. When the
  screenshot or the wait throws, that error is the outcome and the heartbeat is untouched.
\<close>

theorem screenshot_precedes_classification:
  "(let shot = page_screenshot page (path_join env (screenshotDir env)
                 (jwt_sign env (monitor_id monitor) (jwtSecret server) @ ''.png''));
        delay = (if 0 < screenshot_delay monitor
                 then [page_waitForTimeout page (screenshot_delay monitor)] else []);
        delayed = (if 0 < screenshot_delay monitor
                   then void_result env (trace w @ delay) else Inr ());
        captured = void_result env (trace w @ delay @ [shot]);
        outcome = screenshot_and_classify env monitor server page (Some r) w
    in (delayed = Inr () \<and> captured = Inr () \<longrightarrow>
          trace (snd outcome) = trace w @ delay @ [shot] \<and>
          (200 \<le> status r \<and> status r < 400 \<longrightarrow>
             fst outcome = Inr () \<and>
             heartbeat_obj (snd outcome) = (heartbeat_obj w)
               \<lparr>heartbeat_status := UP, heartbeat_msg := msg_number (status r),
                heartbeat_ping := Some (responseEnd r)\<rparr>) \<and>
          (\<not> (200 \<le> status r \<and> status r < 400) \<longrightarrow>
             fst outcome = Inl (new_Error (Number_toString (status r))) \<and>
             heartbeat_obj (snd outcome) = heartbeat_obj w)) \<and>
       (\<forall>e. delayed = Inr () \<and> captured = Inl e \<longrightarrow>
          outcome = (Inl e, w\<lparr>trace := trace w @ delay @ [shot]\<rparr>)) \<and>
       (\<forall>e. delayed = Inl e \<longrightarrow> outcome = (Inl e, w\<lparr>trace := trace w @ delay\<rparr>)))"
  unfolding screenshot_and_classify_Some Let_def
  by (auto split: sum.splits)

theorem screenshot_precedes_classification_witness:
  "fst (screenshot_and_classify env_ok monitor_https server_x 2 (Some response_503) w_idle) =
     Inl (new_Error ''503'') \<and>
   trace (snd (screenshot_and_classify env_ok monitor_https server_x 2 (Some response_503)
     w_idle)) = [page_screenshot 2 ''./data/screenshots/signed.png''] \<and>
   fst (screenshot_and_classify env_ok monitor_https server_x 2 (Some response_200) w_idle) =
     Inr () \<and>
   fst (runCheck env_ok (monitor_https\<lparr>screenshot_delay := 500\<rparr>) server_x 7 w_idle) =
     Inr () \<and>
   trace (snd (runCheck env_ok (monitor_https\<lparr>screenshot_delay := 500\<rparr>) server_x 7 w_idle)) =
     [browser_newContext 7 (contextOptions_of monitor_https), context_newPage 1,
      page_goto 2 ''https://example.com'' networkidle 48000,
      page_waitForTimeout 2 500,
      page_screenshot 2 ''./data/screenshots/signed.png'', context_close 1]"
proof -
  have n: "Number_toString (status response_503) = ''503''"
    by code_simp
  have st: "\<not> (200 \<le> status response_503 \<and> status response_503 < 400)"
    "200 \<le> status response_200 \<and> status response_200 < 400"
    by (simp_all add: response_503_def response_200_def)
  have m: "screenshot_delay monitor_https = 0" "monitor_id monitor_https = 5"
    by (simp_all add: monitor_https_def monitor_file_def)
  have e: "void_result env_ok h = Inr ()" "screenshotDir env_ok = ''./data/screenshots''"
    "jwt_sign env_ok i k = ''signed''" "path_join env_ok a b = a @ ''/'' @ b" for h i k a b
    by (simp_all add: env_ok_def)
  have t0: "trace w_idle = []"
    by (simp add: w_idle_def)
  have run: "fst (runCheck env_ok (monitor_https\<lparr>screenshot_delay := 500\<rparr>) server_x 7 w_idle) =
     Inr ()"
    "trace (snd (runCheck env_ok (monitor_https\<lparr>screenshot_delay := 500\<rparr>) server_x 7 w_idle)) =
     [browser_newContext 7 (contextOptions_of monitor_https), context_newPage 1,
      page_goto 2 ''https://example.com'' networkidle 48000,
      page_waitForTimeout 2 500,
      page_screenshot 2 ''./data/screenshots/signed.png'', context_close 1]"
    by code_simp+
  show ?thesis
    using screenshot_precedes_classification
        [where monitor = monitor_https and page = 2 and env = env_ok and server = server_x
           and w = w_idle and r = response_503]
      screenshot_precedes_classification
        [where monitor = monitor_https and page = 2 and env = env_ok and server = server_x
           and w = w_idle and r = response_200] st run
    by (simp add: Let_def m e n t0)
qed

end
